theory Spec2Isabelle
  imports Complex_Main "HOL-Library.Char_ord" "HOL-Library.List_Lexorder"
    "HOL-Library.Product_Lexorder" "HOL-Library.Multiset"
begin

section \<open>Bar plots of mutational signatures: the data preparation of barplots.py\<close>

text \<open>
  The module reshapes a wide table of mutation frequencies into long-form rows and
  draws one page per sample column into a PDF document. The pandas code is embedded
  as list functions, every Python exception as a value of \<open>error\<close>, the document as
  an explicit state. A numeric cell is a real number, standing for the float64 or the
  integer that the table holds; how pandas adds such cells up is a parameter of the
  model. Strings are lists of ASCII characters.
\<close>

subsection \<open>Errors and strings\<close>

datatype error = KeyError | IndexError | ValueError | Raised string

text \<open>
  \<open>Series.str[i]\<close>: the character at index \<open>i\<close>, counted from the end when \<open>i\<close>
  is negative, and a missing value when \<open>i\<close> is out of range.
\<close>

definition str_get :: "string \<Rightarrow> int \<Rightarrow> char option" where
  "str_get s i =
     (let n = int (length s)
      in if - n \<le> i \<and> i < n then Some (s ! nat (if i < 0 then n + i else i)) else None)"

text \<open>The first-seen order of \<open>unique()\<close> and \<open>drop_duplicates()\<close>.\<close>

definition unique :: "'a list \<Rightarrow> 'a list" where
  "unique xs = rev (remdups (rev xs))"

subsection \<open>format_xlabels\<close>

text \<open>
  One label is \<open>f"{label[0]}{label[2]}{label[-1]}"\<close>; an index out of range raises
  IndexError.
\<close>

definition format_xlabel :: "string \<Rightarrow> error + string" where
  "format_xlabel label =
     (if length label < 3 then Inl IndexError else Inr [label ! 0, label ! 2, last label])"

fun format_xlabels :: "string list \<Rightarrow> error + string list" where
  "format_xlabels [] = Inr []"
| "format_xlabels (label # x_labels) =
     (case format_xlabel label of
        Inl e \<Rightarrow> Inl e
      | Inr l \<Rightarrow> (case format_xlabels x_labels of Inl e \<Rightarrow> Inl e | Inr ls \<Rightarrow> Inr (l # ls)))"

subsection \<open>The two patterns\<close>

text \<open>
  \<open>\w\<close> on ASCII: letters, digits and the underscore. The dot matches every
  character but the newline.
\<close>

definition is_word :: "char \<Rightarrow> bool" where
  "is_word c \<longleftrightarrow>
     (CHR ''a'' \<le> c \<and> c \<le> CHR ''z'') \<or> (CHR ''A'' \<le> c \<and> c \<le> CHR ''Z'') \<or>
     (CHR ''0'' \<le> c \<and> c \<le> CHR ''9'') \<or> c = CHR ''_''"

text \<open>
  The pattern \<open>(\w\[.*\]\w)\<close> of larger_context_barplot. \<open>greedy_tail\<close> matches
  \<open>.*\]\w\<close> at the head of its argument: the star first takes the character and
  gives it back only when the rest cannot match, so the longest match is found.
\<close>

fun greedy_tail :: "string \<Rightarrow> string option" where
  "greedy_tail [] = None"
| "greedy_tail (c # cs) =
     (case (if c = CHR 0x0A then None else greedy_tail cs) of
        Some m \<Rightarrow> Some (c # m)
      | None \<Rightarrow>
          (case cs of
             [] \<Rightarrow> None
           | w # _ \<Rightarrow> if c = CHR '']'' \<and> is_word w then Some [c, w] else None))"

fun match_context :: "string \<Rightarrow> string option" where
  "match_context (c # b # cs) =
     (if is_word c \<and> b = CHR ''[''
      then (case greedy_tail cs of Some m \<Rightarrow> Some (c # b # m) | None \<Rightarrow> None)
      else None)"
| "match_context _ = None"

text \<open>\<open>str.extract\<close> searches the leftmost match; no match is a missing value.\<close>

fun extract_context :: "string \<Rightarrow> string option" where
  "extract_context [] = None"
| "extract_context (c # cs) =
     (case match_context (c # cs) of Some m \<Rightarrow> Some m | None \<Rightarrow> extract_context cs)"

text \<open>
  The pattern \<open>\[(.*?)\]\<close> of parse_96_df: the lazy star stops at the first closing
  bracket; the group is what lies between the brackets.
\<close>

fun lazy_tail :: "string \<Rightarrow> string option" where
  "lazy_tail [] = None"
| "lazy_tail (c # cs) =
     (if c = CHR '']'' then Some []
      else if c = CHR 0x0A then None
      else (case lazy_tail cs of Some m \<Rightarrow> Some (c # m) | None \<Rightarrow> None))"

fun extract_mutation :: "string \<Rightarrow> string option" where
  "extract_mutation [] = None"
| "extract_mutation (c # cs) =
     (case (if c = CHR ''['' then lazy_tail cs else None) of
        Some m \<Rightarrow> Some m
      | None \<Rightarrow> extract_mutation cs)"

subsection \<open>The table\<close>

text \<open>
  The input table has the layout the report functions expect: the first column
  \<open>MutationType\<close> holds the mutation-type strings, then come the sample columns, each
  a name and its numbers, and last the derived column \<open>context\<close> when it has been
  added (a missing value is \<open>None\<close>). The index holds the label of each row, an
  integer; a table as it is read from a file has the labels 0, 1, 2, ...
\<close>

record frame =
  index :: "int list"
  MutationType :: "string list"
  samples :: "(string \<times> real list) list"
  context_col :: "string option list option"

definition columns :: "frame \<Rightarrow> string list" where
  "columns df =
     ''MutationType'' # map fst (samples df) @
     (case context_col df of None \<Rightarrow> [] | Some _ \<Rightarrow> [''context''])"

definition shape0 :: "frame \<Rightarrow> nat" where
  "shape0 df = length (MutationType df)"

text \<open>
  \<open>len(df["MutationType"][0])\<close>: the lookup is by label. No row with the label 0
  raises KeyError; one such row gives its string, and \<open>len\<close> counts its characters;
  several such rows give the series of their strings, and \<open>len\<close> counts the strings.
\<close>

definition MutationType_0 :: "frame \<Rightarrow> string list" where
  "MutationType_0 df = map snd [(l, m) \<leftarrow> zip (index df) (MutationType df). l = 0]"

definition len_MutationType_0 :: "frame \<Rightarrow> error + nat" where
  "len_MutationType_0 df =
     (case MutationType_0 df of
        [] \<Rightarrow> Inl KeyError
      | [m] \<Rightarrow> Inr (length m)
      | m # ms \<Rightarrow> Inr (length (m # ms)))"

subsection \<open>What the module takes from outside\<close>

text \<open>
  barplots.py imports six names from the module helpers. They are parameters of the
  model. \<open>generate_numbers\<close> and \<open>generate_sequence\<close> receive a computed integer and
  may reject it, so they return a result; the names that \<open>generate_sequence\<close> yields
  have any type \<open>'n\<close>, the sort keys any linearly ordered type \<open>'k\<close>.

  \<open>Series_sum\<close> is the method \<open>sum\<close> of a column of pandas, a seventh parameter: on a
  column of integers it is the exact sum, on a column of float64 every addition
  rounds, in an order that pandas chooses.
\<close>

record ('n, 'k) helpers =
  Series_sum :: "real list \<Rightarrow> real"
  MUTATION_LIST :: "string list"
  generate_numbers :: "int \<Rightarrow> error + int list"
  generate_sequence :: "int \<Rightarrow> error + 'n list"
  custom_sort_column_names :: "string \<Rightarrow> 'k"
  COLOR_DICT :: "char \<rightharpoonup> string"
  COLOR_DICT_MUTATION :: "string \<rightharpoonup> string"

subsection \<open>parse_lager_context_df\<close>

record 'n long_row =
  row_name :: 'n
  row_context :: string
  row_variable :: char
  row_sbs :: string
  row_value :: real

type_synonym col_row = "string \<times> real \<times> string option"

definition amino :: "char list" where
  "amino = [CHR ''A'', CHR ''C'', CHR ''T'', CHR ''G'']"

text \<open>\<open>temp_df[col].sum()\<close>: the sum, by pandas, of the values of the rows.\<close>

definition col_sum :: "('n, 'k) helpers \<Rightarrow> col_row list \<Rightarrow> real" where
  "col_sum h rows = Series_sum h (map (\<lambda>(m, v, c). v) rows)"

text \<open>\<open>col_df[col_df["context"] == mut]\<close>: the rows of one class.\<close>

definition class_rows :: "col_row list \<Rightarrow> string \<Rightarrow> col_row list" where
  "class_rows col_df mut = [(m, v, c) \<leftarrow> col_df. c = Some mut]"

text \<open>The body of the innermost loop: the row appended for one base.\<close>

definition emit_row ::
  "('n, 'k) helpers \<Rightarrow> col_row list \<Rightarrow> string \<Rightarrow> string \<Rightarrow> int \<Rightarrow> 'n \<Rightarrow> char \<Rightarrow>
   'n long_row" where
  "emit_row h temp_df col mut idx nm aa =
     (let total_sbs_mut = col_sum h temp_df
      in \<lparr>row_name = nm, row_context = mut, row_variable = aa, row_sbs = col,
          row_value =
            (if total_sbs_mut = 0 then 0
             else col_sum h [(m, v, c) \<leftarrow> temp_df. str_get m idx = Some aa])\<rparr>)"

fun amino_loop ::
  "('n, 'k) helpers \<Rightarrow> col_row list \<Rightarrow> string \<Rightarrow> string \<Rightarrow> int \<Rightarrow> 'n \<Rightarrow> char list \<Rightarrow>
   'n long_row list \<Rightarrow> 'n long_row list" where
  "amino_loop h temp_df col mut idx nm [] result_df = result_df"
| "amino_loop h temp_df col mut idx nm (aa # aas) result_df =
     amino_loop h temp_df col mut idx nm aas
       (result_df @ [emit_row h temp_df col mut idx nm aa])"

fun position_loop ::
  "('n, 'k) helpers \<Rightarrow> col_row list \<Rightarrow> string \<Rightarrow> string \<Rightarrow> (int \<times> 'n) list \<Rightarrow>
   'n long_row list \<Rightarrow> 'n long_row list" where
  "position_loop h temp_df col mut [] result_df = result_df"
| "position_loop h temp_df col mut ((idx, nm) # rest) result_df =
     position_loop h temp_df col mut rest
       (amino_loop h temp_df col mut idx nm amino result_df)"

fun mutation_loop ::
  "('n, 'k) helpers \<Rightarrow> frame \<Rightarrow> col_row list \<Rightarrow> string \<Rightarrow> string list \<Rightarrow>
   'n long_row list \<Rightarrow> error + 'n long_row list" where
  "mutation_loop h df col_df col [] result_df = Inr result_df"
| "mutation_loop h df col_df col (mut # muts) result_df =
     (let temp_df = class_rows col_df mut
      in case len_MutationType_0 df of
           Inl e \<Rightarrow> Inl e
         | Inr n \<Rightarrow>
             (case generate_numbers h (int n - 4) of
                Inl e \<Rightarrow> Inl e
              | Inr context_index_list \<Rightarrow>
                  (case generate_sequence h (int n - 4) of
                     Inl e \<Rightarrow> Inl e
                   | Inr seq \<Rightarrow>
                       mutation_loop h df col_df col muts
                         (position_loop h temp_df col mut (zip context_index_list seq)
                            result_df))))"

text \<open>
  \<open>col\<close> names a sample column; a column that the table does not have raises
  KeyError, and so does a table without the column \<open>context\<close>.
\<close>

definition col_df_of :: "frame \<Rightarrow> real list \<Rightarrow> string option list \<Rightarrow> col_row list" where
  "col_df_of df vals ctx = zip (MutationType df) (zip vals ctx)"

definition parse_lager_context_df ::
  "('n, 'k) helpers \<Rightarrow> frame \<Rightarrow> string \<Rightarrow> error + 'n long_row list" where
  "parse_lager_context_df h df col =
     (case map_of (samples df) col of
        None \<Rightarrow> Inl KeyError
      | Some vals \<Rightarrow>
          (case context_col df of
             None \<Rightarrow> Inl KeyError
           | Some ctx \<Rightarrow>
               mutation_loop h df (col_df_of df vals ctx) col (MUTATION_LIST h) []))"

subsection \<open>The document\<close>

text \<open>
  What the module does to the outside is a log of events: a document is opened at a
  path (the call \<open>PdfPages(path)\<close> returned), a page is saved into it (the calls that
  draw the figure and \<open>pdf.savefig()\<close> returned), the document is closed (\<open>close\<close> was
  called on leaving the \<open>with\<close> statement). A path is the list of its parts.
\<close>

datatype bottom = Scalar real | Array "real list"

record bar =
  bar_x :: "real list"
  bar_height :: "real list"
  bar_width :: real
  bar_bottom :: bottom
  bar_color :: string
  bar_label :: "char option"

datatype cell = Num real | Str "string option"

record bar96 =
  bar96_x :: nat
  bar96_height :: cell
  bar96_width :: real
  bar96_color :: string
  bar96_label :: "string option"

record 'b page =
  page_title :: string
  page_xticks :: "nat list"
  page_xticklabels :: "string list"
  page_bars :: "'b list"

datatype figure = Context_figure "bar page" | Standard_figure "bar96 page"

datatype event = Opened "string list" | Saved figure | Closed "string list"

text \<open>
  The backend is matplotlib with the file system under it, a parameter: \<open>open_file\<close>
  says whether a document can be opened at a path, \<open>draw\<close> whether a figure can be
  drawn and saved, \<open>close_file\<close> whether the document can be finalised and closed;
  each may raise.
\<close>

record backend =
  open_file :: "string list \<Rightarrow> error option"
  draw :: "figure \<Rightarrow> error option"
  close_file :: "string list \<Rightarrow> error option"

text \<open>
  \<open>with PdfPages(path) as pdf: body\<close>. An error on opening is raised before the body
  is entered, and then nothing is closed. Once the document is open, \<open>close\<close> is called
  when the body is left, whether it returned or raised (the event \<open>Closed\<close>); an error of
  \<open>close\<close> itself is then the one that the statement raises.
\<close>

definition with_PdfPages ::
  "backend \<Rightarrow> string list \<Rightarrow> (event list \<Rightarrow> (error + unit) \<times> event list) \<Rightarrow>
   event list \<Rightarrow> (error + unit) \<times> event list" where
  "with_PdfPages backend path body evs =
     (case open_file backend path of
        Some e \<Rightarrow> (Inl e, evs)
      | None \<Rightarrow>
          (case body (evs @ [Opened path]) of
             (r, evs') \<Rightarrow>
               (case close_file backend path of
                  Some e \<Rightarrow> (Inl e, evs' @ [Closed path])
                | None \<Rightarrow> (r, evs' @ [Closed path]))))"

text \<open>
  The calls into matplotlib are recorded in the figure; a page is saved only when
  nothing was raised before.
\<close>

definition savefig :: "backend \<Rightarrow> figure \<Rightarrow> event list \<Rightarrow> (error + unit) \<times> event list" where
  "savefig backend fig evs =
     (case draw backend fig of
        Some e \<Rightarrow> (Inl e, evs)
      | None \<Rightarrow> (Inr (), evs @ [Saved fig]))"

text \<open>The documents opened in a log, and the pages saved.\<close>

definition opened_paths :: "event list \<Rightarrow> string list list" where
  "opened_paths evs = concat (map (\<lambda>e. case e of Opened p \<Rightarrow> [p] | _ \<Rightarrow> []) evs)"

definition saved_figures :: "event list \<Rightarrow> figure list" where
  "saved_figures evs = concat (map (\<lambda>e. case e of Saved f \<Rightarrow> [f] | _ \<Rightarrow> []) evs)"

subsection \<open>create_increased_context_barplot\<close>

text \<open>
  The centres and the width of the bars: \<open>x1\<close> stays empty unless there are two or
  four names.
\<close>

definition bar_positions :: "nat \<Rightarrow> real list \<Rightarrow> real \<times> real list list" where
  "bar_positions stacks x0 =
     (let w = 45 / 100
      in if stacks = 2
         then (w, [map (\<lambda>x. x - w / real stacks) x0, map (\<lambda>x. x + w / real stacks) x0])
         else if stacks = 4
         then (let w = 2 / 10
               in (w, [map (\<lambda>x. x - w * 4 / real stacks - w / 2) x0,
                       map (\<lambda>x. x - w * 2 / real stacks) x0,
                       map (\<lambda>x. x + w * 2 / real stacks) x0,
                       map (\<lambda>x. x + w * 4 / real stacks + w / 2) x0]))
         else (w, []))"

text \<open>
  \<open>data[f"{name}{var}"]\<close>: the values of the rows of one name and one base, in row
  order; a pair that no row has is a missing key. The key that the f-string builds is
  taken to determine the pair.
\<close>

definition group_values :: "'n long_row list \<Rightarrow> 'n \<Rightarrow> char \<Rightarrow> real list option" where
  "group_values df nm var =
     (let g = [r \<leftarrow> df. row_name r = nm \<and> row_variable r = var]
      in if g = [] then None else Some (map row_value g))"

text \<open>
  \<open>bottom += height\<close>: the number 0 plus an array is a new array; an array is
  updated in place, by an array of its own length or of length one.
\<close>

definition np_iadd :: "bottom \<Rightarrow> real list \<Rightarrow> error + bottom" where
  "np_iadd bottom height =
     (case bottom of
        Scalar b \<Rightarrow> Inr (Array (map (\<lambda>v. b + v) height))
      | Array bs \<Rightarrow>
          if length height = length bs then Inr (Array (map (\<lambda>(b, v). b + v) (zip bs height)))
          else if length height = 1 then Inr (Array (map (\<lambda>b. b + hd height) bs))
          else Inl ValueError)"

fun var_loop ::
  "('n, 'k) helpers \<Rightarrow> 'n long_row list \<Rightarrow> real list \<Rightarrow> real \<Rightarrow> 'n \<Rightarrow> char list \<Rightarrow>
   bottom \<times> char set \<times> bar list \<Rightarrow> error + bottom \<times> char set \<times> bar list" where
  "var_loop h df x w nm [] st = Inr st"
| "var_loop h df x w nm (var # vars) (bottom, added_labels, bars) =
     (case group_values df nm var of
        None \<Rightarrow> Inl KeyError
      | Some height \<Rightarrow>
          (case COLOR_DICT h var of
             None \<Rightarrow> Inl KeyError
           | Some color \<Rightarrow>
               (case np_iadd bottom height of
                  Inl e \<Rightarrow> Inl e
                | Inr bottom' \<Rightarrow>
                    var_loop h df x w nm vars
                      (bottom', insert var added_labels,
                       bars @ [\<lparr>bar_x = x, bar_height = height, bar_width = w,
                                bar_bottom = bottom, bar_color = color,
                                bar_label = (if var \<in> added_labels then None else Some var)\<rparr>]))))"

fun name_loop ::
  "('n, 'k) helpers \<Rightarrow> 'n long_row list \<Rightarrow> real \<Rightarrow> char list \<Rightarrow> (real list \<times> 'n) list \<Rightarrow>
   char set \<times> bar list \<Rightarrow> error + char set \<times> bar list" where
  "name_loop h df w variable [] st = Inr st"
| "name_loop h df w variable ((x, nm) # rest) (added_labels, bars) =
     (case var_loop h df x w nm variable (Scalar 0, added_labels, bars) of
        Inl e \<Rightarrow> Inl e
      | Inr (bottom, added_labels', bars') \<Rightarrow>
          name_loop h df w variable rest (added_labels', bars'))"

text \<open>
  The figure of one column. The title is the first value of the column \<open>sbs\<close>, which
  a table without rows does not have; fewer than six
  labels make the step of \<open>range(0, len(x0), sublist_length)\<close> zero, which raises
  ValueError. The class names and the dividers drawn over the blocks raise nothing
  and are left out of the figure.
\<close>

definition context_figure :: "('n, 'k) helpers \<Rightarrow> 'n long_row list \<Rightarrow> error + bar page" where
  "context_figure h df =
     (if df = [] then Inl KeyError
      else (let title = row_sbs (hd df);
                labels = unique (map row_context df);
                x0 = [0..<length labels];
                names = unique (map row_name df);
                stacks = length names;
                variable = unique (map row_variable df);
                (w, x1) = bar_positions stacks (map real x0)
            in case name_loop h df w variable (zip x1 names) ({}, []) of
                 Inl e \<Rightarrow> Inl e
               | Inr (added_labels, bars) \<Rightarrow>
                   if length x0 div 6 = 0 then Inl ValueError
                   else (case format_xlabels labels of
                           Inl e \<Rightarrow> Inl e
                         | Inr x_labels_ticks \<Rightarrow>
                             Inr \<lparr>page_title = title, page_xticks = x0,
                                  page_xticklabels = x_labels_ticks, page_bars = bars\<rparr>)))"

definition create_increased_context_barplot ::
  "('n, 'k) helpers \<Rightarrow> backend \<Rightarrow> 'n long_row list \<Rightarrow> event list \<Rightarrow>
   (error + unit) \<times> event list" where
  "create_increased_context_barplot h backend df evs =
     (case context_figure h df of
        Inl e \<Rightarrow> (Inl e, evs)
      | Inr fig \<Rightarrow> savefig backend (Context_figure fig) evs)"

subsection \<open>parse_96_df\<close>

text \<open>
  \<open>df[col]\<close> for a name out of \<open>df.columns[1:]\<close>: a sample column, or the column
  \<open>context\<close> of strings.
\<close>

definition get_cells :: "frame \<Rightarrow> string \<Rightarrow> cell list option" where
  "get_cells df col =
     (case map_of (samples df) col of
        Some vals \<Rightarrow> Some (map Num vals)
      | None \<Rightarrow>
          if col = ''context'' then map_option (map Str) (context_col df) else None)"

fun bars96_loop ::
  "('n, 'k) helpers \<Rightarrow> (nat \<times> string option \<times> cell) list \<Rightarrow> string set \<times> bar96 list \<Rightarrow>
   error + string set \<times> bar96 list" where
  "bars96_loop h [] st = Inr st"
| "bars96_loop h ((x, mutation, v) # rest) (added_labels, bars) =
     (case mutation of
        None \<Rightarrow> Inl KeyError
      | Some m \<Rightarrow>
          (case COLOR_DICT_MUTATION h m of
             None \<Rightarrow> Inl KeyError
           | Some color \<Rightarrow>
               bars96_loop h rest
                 (insert m added_labels,
                  bars @ [\<lparr>bar96_x = x, bar96_height = v, bar96_width = 8 / 10,
                           bar96_color = color,
                           bar96_label = (if m \<in> added_labels then None else Some m)\<rparr>])))"

text \<open>
  Row \<open>x\<close> of the table gives the bar at \<open>x\<close>: its class, and its value
  \<open>temp_df.iloc[x, 1]\<close> (every column of a table has one cell per row).
\<close>

definition standard_figure :: "('n, 'k) helpers \<Rightarrow> frame \<Rightarrow> string \<Rightarrow> error + bar96 page" where
  "standard_figure h df col =
     (case get_cells df col of
        None \<Rightarrow> Inl KeyError
      | Some cells \<Rightarrow>
          (let mutation = map extract_mutation (MutationType df);
               muts = unique (MutationType df);
               x0 = [0..<length muts]
           in case bars96_loop h (zip x0 (zip mutation cells)) ({}, []) of
                Inl e \<Rightarrow> Inl e
              | Inr (added_labels, bars) \<Rightarrow>
                  (case format_xlabels muts of
                     Inl e \<Rightarrow> Inl e
                   | Inr x_labels_ticks \<Rightarrow>
                       Inr \<lparr>page_title = col, page_xticks = x0,
                            page_xticklabels = x_labels_ticks, page_bars = bars\<rparr>)))"

definition parse_96_df ::
  "('n, 'k) helpers \<Rightarrow> backend \<Rightarrow> frame \<Rightarrow> string \<Rightarrow> event list \<Rightarrow>
   (error + unit) \<times> event list" where
  "parse_96_df h backend df col evs =
     (case standard_figure h df col of
        Inl e \<Rightarrow> (Inl e, evs)
      | Inr fig \<Rightarrow> savefig backend (Standard_figure fig) evs)"

subsection \<open>The two reports\<close>

text \<open>The decimal numeral of a row count, as the f-string prints it.\<close>

fun str_nat :: "nat \<Rightarrow> string" where
  "str_nat n =
     (if n < 10 then [''0123456789'' ! n]
      else str_nat (n div 10) @ [''0123456789'' ! (n mod 10)])"

declare str_nat.simps [simp del]

fun larger_columns_loop ::
  "('n, 'k) helpers \<Rightarrow> backend \<Rightarrow> frame \<Rightarrow> string list \<Rightarrow> event list \<Rightarrow>
   (error + unit) \<times> event list" where
  "larger_columns_loop h backend df [] evs = (Inr (), evs)"
| "larger_columns_loop h backend df (col # cols) evs =
     (case parse_lager_context_df h df col of
        Inl e \<Rightarrow> (Inl e, evs)
      | Inr result_df \<Rightarrow>
          (case create_increased_context_barplot h backend result_df evs of
             (Inl e, evs') \<Rightarrow> (Inl e, evs')
           | (Inr u, evs') \<Rightarrow> larger_columns_loop h backend df cols evs'))"

text \<open>
  larger_context_barplot returns its result, the caller's table as the call leaves
  it, and the log of events. \<open>sorted\<close> with a key is a stable sort, as \<open>sort_key\<close> is.
  The progress bar of \<open>tqdm\<close> is left out.
\<close>

definition larger_context_barplot ::
  "('n, 'k::linorder) helpers \<Rightarrow> backend \<Rightarrow> frame \<Rightarrow> string list \<Rightarrow>
   event list \<Rightarrow> (error + unit) \<times> frame \<times> event list" where
  "larger_context_barplot h backend df_multi_contexct folder_path evs =
     (let df = df_multi_contexct
            \<lparr>context_col := Some (map extract_context (MutationType df_multi_contexct))\<rparr>;
          sorted_columns = sort_key (custom_sort_column_names h) (butlast (tl (columns df)))
      in case with_PdfPages backend (folder_path @ [''signatures.'' @ str_nat (shape0 df) @ ''.pdf''])
                (larger_columns_loop h backend df sorted_columns) evs of
           (r, evs') \<Rightarrow> (r, df, evs'))"

fun standard_columns_loop ::
  "('n, 'k) helpers \<Rightarrow> backend \<Rightarrow> frame \<Rightarrow> string list \<Rightarrow> event list \<Rightarrow>
   (error + unit) \<times> event list" where
  "standard_columns_loop h backend df [] evs = (Inr (), evs)"
| "standard_columns_loop h backend df (col # cols) evs =
     (case parse_96_df h backend df col evs of
        (Inl e, evs') \<Rightarrow> (Inl e, evs')
      | (Inr u, evs') \<Rightarrow> standard_columns_loop h backend df cols evs')"

definition create_96_barplot ::
  "('n, 'k::linorder) helpers \<Rightarrow> backend \<Rightarrow> frame \<Rightarrow> string list \<Rightarrow>
   event list \<Rightarrow> (error + unit) \<times> event list" where
  "create_96_barplot h backend df figure_folder evs =
     (let sorted_columns = sort_key (custom_sort_column_names h) (tl (columns df))
      in with_PdfPages backend (figure_folder @ [''signatures.96.pdf''])
           (standard_columns_loop h backend df sorted_columns) evs)"

subsection \<open>The helpers as the specification describes them\<close>

text \<open>
  Modelled from the spec: \<open>MUTATION_LIST\<close> is defined in helpers.py, which is not
  among the sources. The specification names six canonical substitution classes, in
  this order.
\<close>

definition MUTATION_LIST_spec :: "string list" where
  "MUTATION_LIST_spec = [''C>A'', ''C>G'', ''C>T'', ''T>A'', ''T>C'', ''T>G'']"

text \<open>
  Modelled from the spec: \<open>custom_sort_column_names\<close> is defined in helpers.py, which
  is not among the sources. The specification asks for an order that treats names with
  numeric suffixes in numeric order (SBS1, SBS2, ..., SBS10). The key of a name is its
  prefix up to the first digit and the number that the digits after it spell.
\<close>

definition is_digit :: "char \<Rightarrow> bool" where
  "is_digit c \<longleftrightarrow> CHR ''0'' \<le> c \<and> c \<le> CHR ''9''"

definition digits_value :: "string \<Rightarrow> nat" where
  "digits_value ds = foldl (\<lambda>n c. 10 * n + (of_char c - 48)) 0 ds"

definition custom_sort_column_names_spec :: "string \<Rightarrow> string \<times> nat" where
  "custom_sort_column_names_spec column_name =
     (takeWhile (\<lambda>c. \<not> is_digit c) column_name,
      digits_value (takeWhile is_digit (dropWhile (\<lambda>c. \<not> is_digit c) column_name)))"

text \<open>
  Modelled from the spec: \<open>generate_numbers\<close> and \<open>generate_sequence\<close> are defined in
  helpers.py, which is not among the sources. The specification says of them only
  that there is one position, with its label, for each of the \<open>n\<close> positions that
  remain of a string of length \<open>n + 4\<close>.
\<close>

definition position_scheme_spec ::
  "(int \<Rightarrow> error + int list) \<Rightarrow> (int \<Rightarrow> error + 'n list) \<Rightarrow> int \<Rightarrow> bool" where
  "position_scheme_spec gen_numbers gen_sequence n \<longleftrightarrow>
     (case (gen_numbers n, gen_sequence n) of
        (Inr numbers, Inr seq) \<Rightarrow> int (length numbers) = n \<and> int (length seq) = n
      | _ \<Rightarrow> False)"

subsection \<open>Notions used in the statements\<close>

text \<open>
  A mutation-type token with one flanking base before the bracket, as in the docstring
  of format_xlabels (A[C>A]A): the base \<open>x\<close>, the substitution \<open>y>z\<close>, and the
  characters \<open>ws\<close> after the bracket.
\<close>

definition bracket_token :: "char \<Rightarrow> char \<Rightarrow> char \<Rightarrow> string \<Rightarrow> string" where
  "bracket_token x y z ws = x # CHR ''['' # y # CHR ''>'' # z # CHR '']'' # ws"

text \<open>
  The rows that one pass of the outer loop of parse_lager_context_df appends: for
  each position of \<open>ps\<close>, one row for each base.
\<close>

definition class_block ::
  "('n, 'k) helpers \<Rightarrow> col_row list \<Rightarrow> string \<Rightarrow> (int \<times> 'n) list \<Rightarrow> string \<Rightarrow>
   'n long_row list" where
  "class_block h col_df col ps mut =
     concat (map (\<lambda>(idx, nm). map (emit_row h (class_rows col_df mut) col mut idx nm) amino) ps)"

text \<open>The table without its row at position \<open>i\<close>.\<close>

definition remove_nth :: "nat \<Rightarrow> 'a list \<Rightarrow> 'a list" where
  "remove_nth i xs = take i xs @ drop (Suc i) xs"

definition drop_row :: "nat \<Rightarrow> frame \<Rightarrow> frame" where
  "drop_row i df =
     \<lparr>index = remove_nth i (index df),
      MutationType = remove_nth i (MutationType df),
      samples = map (\<lambda>(column_name, vals). (column_name, remove_nth i vals)) (samples df),
      context_col = map_option (remove_nth i) (context_col df)\<rparr>"

text \<open>The title of a saved page, and the titles of the pages of a log.\<close>

definition figure_title :: "figure \<Rightarrow> string" where
  "figure_title fig =
     (case fig of Context_figure p \<Rightarrow> page_title p | Standard_figure p \<Rightarrow> page_title p)"

definition saved_titles :: "event list \<Rightarrow> string list" where
  "saved_titles evs = map figure_title (saved_figures evs)"

text \<open>The first error in a list of outcomes, one outcome for each column.\<close>

fun first_error :: "(error + unit) list \<Rightarrow> error + unit" where
  "first_error [] = Inr ()"
| "first_error (Inl e # rs) = Inl e"
| "first_error (Inr u # rs) = first_error rs"

subsection \<open>Sums of float64\<close>

text \<open>
  An instance of \<open>Series_sum\<close> for columns of float64. A finite float64 is a multiple
  of \<open>2 powi (e - 52)\<close> with at most 53 bits, where \<open>e\<close> is the exponent of its
  magnitude, at least -1022; an addition yields the float64 nearest to the exact sum,
  a tie going to the even multiple. Overflow to infinity is left out. The sum of a
  column starts from 0 and adds the cells from first to last, which is the order of
  numpy for fewer than eight cells.
\<close>

definition round_half_even :: "real \<Rightarrow> int" where
  "round_half_even x =
     (let f = \<lfloor>x\<rfloor>
      in if x - of_int f < 1 / 2 then f
         else if 1 / 2 < x - of_int f then f + 1
         else if even f then f else f + 1)"

definition float64_exponent :: "real \<Rightarrow> int" where
  "float64_exponent x =
     (case List.find (\<lambda>e. \<bar>x\<bar> < 2 powi (e + 1)) [- 1022..1023] of
        Some e \<Rightarrow> e
      | None \<Rightarrow> 1024)"

definition float64_round :: "real \<Rightarrow> real" where
  "float64_round x =
     of_int (round_half_even (x / 2 powi (float64_exponent x - 52))) *
       2 powi (float64_exponent x - 52)"

definition float64_add :: "real \<Rightarrow> real \<Rightarrow> real" where
  "float64_add a b = float64_round (a + b)"

definition float64_sum :: "real list \<Rightarrow> real" where
  "float64_sum vals = foldl float64_add 0 vals"

subsection \<open>Example inputs\<close>

text \<open>
  Helpers that serve tables of pentanucleotide strings such as AA[C>A]AA (length 9):
  six of the contexts that the pattern of larger_context_barplot extracts, the two
  outer positions 0 and 8 with the labels -2 and 2, the numeric-aware sort key, and
  colours for the four bases and the six classes. The sums are exact, as they are for
  the cells of the example tables.
\<close>

definition example_helpers :: "(int, string \<times> nat) helpers" where
  "example_helpers =
     \<lparr>Series_sum = sum_list,
      MUTATION_LIST =
        [''A[C>A]A'', ''A[C>G]A'', ''A[C>T]A'', ''A[T>A]A'', ''A[T>C]A'', ''A[T>G]A''],
      generate_numbers = (\<lambda>n. if n = 5 then Inr [0, 8] else Inl ValueError),
      generate_sequence = (\<lambda>n. if n = 5 then Inr [- 2, 2] else Inl ValueError),
      custom_sort_column_names = custom_sort_column_names_spec,
      COLOR_DICT =
        [CHR ''A'' \<mapsto> ''green'', CHR ''C'' \<mapsto> ''blue'', CHR ''T'' \<mapsto> ''red'',
         CHR ''G'' \<mapsto> ''orange''],
      COLOR_DICT_MUTATION =
        [''C>A'' \<mapsto> ''cyan'', ''C>G'' \<mapsto> ''black'', ''C>T'' \<mapsto> ''red'',
         ''T>A'' \<mapsto> ''grey'', ''T>C'' \<mapsto> ''green'', ''T>G'' \<mapsto> ''pink'']\<rparr>"

text \<open>A table of four rows and two sample columns; its last string has no bracket.\<close>

definition example_table :: frame where
  "example_table =
     \<lparr>index = [0, 1, 2, 3],
      MutationType = [''AA[C>A]AA'', ''CA[C>A]AT'', ''AA[C>G]AA'', ''ACA''],
      samples = [(''SBS10'', [1 / 2, 1 / 4, 1 / 4, 1]), (''SBS2'', [1, 0, 0, 5])],
      context_col = None\<rparr>"

text \<open>The same table with the column \<open>context\<close> that larger_context_barplot adds.\<close>

definition example_context_table :: frame where
  "example_context_table =
     example_table
       \<lparr>context_col := Some [Some ''A[C>A]A'', Some ''A[C>A]A'', Some ''A[C>G]A'', None]\<rparr>"

text \<open>A table with its columns and no row.\<close>

definition empty_table :: frame where
  "empty_table =
     \<lparr>index = [], MutationType = [], samples = [(''SBS1'', [])], context_col = Some []\<rparr>"

text \<open>
  Helpers as the specification describes them, for trinucleotide strings (length 7):
  the six classes, and three positions with three labels.
\<close>

definition spec_example_helpers :: "(int, string \<times> nat) helpers" where
  "spec_example_helpers =
     \<lparr>Series_sum = sum_list,
      MUTATION_LIST = MUTATION_LIST_spec,
      generate_numbers = (\<lambda>n. if n = 3 then Inr [0, 2, 6] else Inl ValueError),
      generate_sequence = (\<lambda>n. if n = 3 then Inr [- 1, 0, 1] else Inl ValueError),
      custom_sort_column_names = custom_sort_column_names_spec,
      COLOR_DICT = Map.empty,
      COLOR_DICT_MUTATION = Map.empty\<rparr>"

definition spec_example_table :: frame where
  "spec_example_table =
     \<lparr>index = [0, 1],
      MutationType = [''A[C>A]A'', ''A[C>A]C''],
      samples = [(''SBS1'', [1 / 4, 3 / 4])],
      context_col = Some [Some ''C>A'', Some ''C>A'']\<rparr>"

text \<open>
  What is left of a table of three rows when its first row is cut off
  (\<open>t.iloc[1:]\<close>): the rows keep their labels 1 and 2.
\<close>

definition sliced_table :: frame where
  "sliced_table =
     \<lparr>index = [1, 2],
      MutationType = [''A[C>A]C'', ''A[C>A]G''],
      samples = [(''SBS1'', [3 / 4, 1 / 4])],
      context_col = Some [Some ''C>A'', Some ''C>A'']\<rparr>"

text \<open>
  A table in the standard representation with three sample columns. A backend on
  which everything works, one on which the page of the column SBS10 cannot be drawn,
  and one whose folder is missing, so that no document can be opened.
\<close>

definition standard_table :: frame where
  "standard_table =
     \<lparr>index = [0, 1],
      MutationType = [''A[C>A]A'', ''A[C>A]C''],
      samples = [(''SBS10'', [1 / 4, 3 / 4]), (''SBS2'', [1 / 2, 1 / 2]), (''SBS30'', [0, 1])],
      context_col = None\<rparr>"

definition working_backend :: backend where
  "working_backend =
     \<lparr>open_file = (\<lambda>path. None), draw = (\<lambda>fig. None), close_file = (\<lambda>path. None)\<rparr>"

definition failing_backend :: backend where
  "failing_backend =
     \<lparr>open_file = (\<lambda>path. None),
      draw = (\<lambda>fig. if figure_title fig = ''SBS10'' then Some (Raised ''disk full'') else None),
      close_file = (\<lambda>path. None)\<rparr>"

definition missing_folder_backend :: backend where
  "missing_folder_backend =
     \<lparr>open_file = (\<lambda>path. Some (Raised ''No such file or directory'')),
      draw = (\<lambda>fig. None),
      close_file = (\<lambda>path. None)\<rparr>"

text \<open>
  A table of one row with the four columns of the specification's example of the
  sort.
\<close>

definition sbs_table :: frame where
  "sbs_table =
     \<lparr>index = [0],
      MutationType = [''AA[C>A]AA''],
      samples = [(''SBS1'', [1]), (''SBS2'', [1]), (''SBS10'', [1]), (''SBS3'', [1])],
      context_col = None\<rparr>"

text \<open>
  A column of float64: the cells are the float64 nearest to 0.2, 0.1 and 0.7, and the
  three rows belong to one class. The helpers are those of the example, with the
  float64 sum.
\<close>

definition float64_helpers :: "(int, string \<times> nat) helpers" where
  "float64_helpers = example_helpers\<lparr>Series_sum := float64_sum\<rparr>"

definition float64_table :: frame where
  "float64_table =
     \<lparr>index = [0, 1, 2],
      MutationType = [''AA[C>A]AA'', ''CA[C>A]AA'', ''AA[C>A]AC''],
      samples =
        [(''SBS1'',
          [3602879701896397 / 18014398509481984, 3602879701896397 / 36028797018963968,
           3152519739159347 / 4503599627370496])],
      context_col = Some [Some ''A[C>A]A'', Some ''A[C>A]A'', Some ''A[C>A]A'']\<rparr>"

section \<open>Properties\<close>

subsection \<open>Claims about format_xlabels\<close>

lemma format_xlabel_token:
  "ws \<noteq> [] \<Longrightarrow> format_xlabel (bracket_token x y z ws) = Inr [x, y, last ws]"
  by (simp add: format_xlabel_def bracket_token_def)

lemma format_xlabels_map:
  "(\<And>l. l \<in> set ls \<Longrightarrow> format_xlabel l = Inr (f l)) \<Longrightarrow> format_xlabels ls = Inr (map f ls)"
  by (induction ls) simp_all

text \<open>
  C6 (as amended). For every mutation-type token with exactly one flanking base
  before the bracket, \<open>x[y>z]ws\<close> with at least one character \<open>ws\<close> after the
  bracket, format_xlabels yields the three characters \<open>x\<close>, \<open>y\<close> and the last
  character of the token: the first flanking base, the substituted-from base and the
  last flanking base. So A[C>A]A becomes ACA and T[G>C]T becomes TGT, whatever the
  number of bases after the bracket.
\<close>

theorem format_xlabels_one_flank:
  "(\<forall>(x, y, z, ws) \<in> set toks. ws \<noteq> []) \<Longrightarrow>
   format_xlabels (map (\<lambda>(x, y, z, ws). bracket_token x y z ws) toks) =
     Inr (map (\<lambda>(x, y, z, ws). [x, y, last ws]) toks)"
proof -
  assume a: "\<forall>(x, y, z, ws) \<in> set toks. ws \<noteq> []"
  let ?labels = "map (\<lambda>(x, y, z, ws). bracket_token x y z ws) toks"
  have "format_xlabels ?labels = Inr (map (\<lambda>l. [l ! 0, l ! 2, last l]) ?labels)"
    using a by (intro format_xlabels_map) (auto simp: format_xlabel_def bracket_token_def)
  also have "map (\<lambda>l. [l ! 0, l ! 2, last l]) ?labels = map (\<lambda>(x, y, z, ws). [x, y, last ws]) toks"
    using a by (auto simp: bracket_token_def)
  finally show ?thesis .
qed

text \<open>The two labels of the specification, as an instance of the theorem.\<close>

theorem format_xlabels_literals:
  "format_xlabels [''A[C>A]A'', ''T[G>C]T''] = Inr [''ACA'', ''TGT'']"
  using format_xlabels_one_flank
    [of "[(CHR ''A'', CHR ''C'', CHR ''A'', ''A''), (CHR ''T'', CHR ''G'', CHR ''C'', ''T'')]"]
  by (simp add: bracket_token_def)

text \<open>
  With two flanking bases before the bracket the middle character of the label is the
  bracket itself, not the substituted-from base: C6 as stated fails here.
\<close>

theorem format_xlabels_two_flanks:
  "format_xlabels [''AA[C>A]AA''] = Inr [''A[A''] \<and>
   format_xlabels [''AA[C>A]AA''] \<noteq> Inr [''ACA'']"
  by (simp add: format_xlabel_def)

subsection \<open>The rows of parse_lager_context_df\<close>


lemma amino_loop_eq:
  "amino_loop h t col mut idx nm aas res = res @ map (emit_row h t col mut idx nm) aas"
  by (induction aas arbitrary: res) simp_all

lemma position_loop_eq:
  "position_loop h t col mut ps res =
     res @ concat (map (\<lambda>(idx, nm). map (emit_row h t col mut idx nm) amino) ps)"
  by (induction ps arbitrary: res) (auto simp: amino_loop_eq)

lemma mutation_loop_eq:
  assumes "len_MutationType_0 df = Inr n"
    and "generate_numbers h (int n - 4) = Inr numbers"
    and "generate_sequence h (int n - 4) = Inr seq"
  shows "mutation_loop h df col_df col muts res =
     Inr (res @ concat (map (class_block h col_df col (zip numbers seq)) muts))"
  using assms by (induction muts arbitrary: res) (simp_all add: position_loop_eq class_block_def)

lemma nth_concat_uniform:
  "(\<And>x. x \<in> set xs \<Longrightarrow> length (f x) = n) \<Longrightarrow> i < length xs \<Longrightarrow> k < n \<Longrightarrow>
   concat (map f xs) ! (i * n + k) = f (xs ! i) ! k"
proof (induction xs arbitrary: i)
  case Nil
  then show ?case by simp
next
  case (Cons x xs)
  show ?case
  proof (cases i)
    case 0
    with Cons.prems show ?thesis by (simp add: nth_append)
  next
    case (Suc j)
    have "concat (map f (x # xs)) ! (i * n + k) = concat (map f xs) ! (j * n + k)"
      using Cons.prems Suc by (simp add: nth_append)
    also have "\<dots> = f (xs ! j) ! k"
      using Cons.prems Suc by (intro Cons.IH) auto
    finally show ?thesis using Suc by simp
  qed
qed

lemma length_concat_uniform:
  "(\<And>x. x \<in> set xs \<Longrightarrow> length (f x) = n) \<Longrightarrow> length (concat (map f xs)) = length xs * n"
  by (induction xs) simp_all

lemma length_amino: "length amino = 4"
  by (simp add: amino_def)

lemma length_class_block: "length (class_block h col_df col ps mut) = length ps * 4"
  unfolding class_block_def
  by (rule length_concat_uniform) (auto simp: length_amino)

lemma class_block_nth:
  assumes "j < length ps" "k < 4"
  shows "class_block h col_df col ps mut ! (j * 4 + k) =
     emit_row h (class_rows col_df mut) col mut (fst (ps ! j)) (snd (ps ! j)) (amino ! k)"
proof -
  have "class_block h col_df col ps mut ! (j * 4 + k) =
      (\<lambda>(idx, nm). map (emit_row h (class_rows col_df mut) col mut idx nm) amino) (ps ! j) ! k"
    unfolding class_block_def using assms
    by (intro nth_concat_uniform) (auto simp: length_amino)
  then show ?thesis using assms by (simp add: case_prod_beta length_amino)
qed

lemma rows_nth:
  assumes "i < length muts" "j < length ps" "k < 4"
  shows "concat (map (class_block h col_df col ps) muts) ! (4 * (i * length ps + j) + k) =
     emit_row h (class_rows col_df (muts ! i)) col (muts ! i) (fst (ps ! j)) (snd (ps ! j)) (amino ! k)"
proof -
  have idx: "4 * (i * length ps + j) + k = i * (length ps * 4) + (j * 4 + k)"
    by (simp add: algebra_simps)
  have "j * 4 + k < length ps * 4"
    using assms by simp
  then have "concat (map (class_block h col_df col ps) muts) ! (i * (length ps * 4) + (j * 4 + k)) =
      class_block h col_df col ps (muts ! i) ! (j * 4 + k)"
    using assms(1) by (intro nth_concat_uniform) (simp_all add: length_class_block)
  then show ?thesis
    by (simp only: idx class_block_nth [OF assms(2,3)])
qed

lemma length_rows:
  "length (concat (map (class_block h col_df col ps) muts)) = length muts * (length ps * 4)"
  by (rule length_concat_uniform) (simp add: length_class_block)

text \<open>
  With exact sums every row of a class is counted for exactly one base.
\<close>

lemma col_sum_exact:
  "(\<And>vs. Series_sum h vs = sum_list vs) \<Longrightarrow> col_sum h t = (\<Sum>(m, v, c)\<leftarrow>t. v)"
  by (simp add: col_sum_def)

lemma conservation:
  "(\<And>m v c. (m, v, c) \<in> set t \<Longrightarrow> str_get m idx \<in> Some ` set amino) \<Longrightarrow>
   (\<Sum>aa\<leftarrow>amino. \<Sum>(m, v, c)\<leftarrow>[(m, v, c) \<leftarrow> t. str_get m idx = Some aa]. v) =
     (\<Sum>(m, v, c)\<leftarrow>(t :: col_row list). v)"
proof (induction t)
  case Nil
  then show ?case by simp
next
  case (Cons r t)
  obtain m v c where r: "r = (m, v, c)" by (cases r)
  have ih: "(\<Sum>aa\<leftarrow>amino. \<Sum>(m, v, c)\<leftarrow>[(m, v, c) \<leftarrow> t. str_get m idx = Some aa]. v) =
      (\<Sum>(m, v, c)\<leftarrow>t. v)"
    using Cons.prems by (intro Cons.IH) auto
  define a where "a aa = (if str_get m idx = Some aa then v else 0)" for aa
  define b where "b aa = (\<Sum>(m, v, c)\<leftarrow>[(m, v, c) \<leftarrow> t. str_get m idx = Some aa]. v)" for aa
  have one: "(\<Sum>aa\<leftarrow>amino. a aa) = v"
    using Cons.prems [of m v c] r by (auto simp: amino_def a_def)
  have "(\<Sum>(m, v, c)\<leftarrow>[(m, v, c) \<leftarrow> (m, v, c) # t. str_get m idx = Some aa]. v) = a aa + b aa"
    for aa
    by (simp add: a_def b_def)
  then have
    "(\<Sum>aa\<leftarrow>amino. \<Sum>(m, v, c)\<leftarrow>[(m, v, c) \<leftarrow> (m, v, c) # t. str_get m idx = Some aa]. v) =
      (\<Sum>aa\<leftarrow>amino. a aa + b aa)"
    by simp
  also have "\<dots> = (\<Sum>aa\<leftarrow>amino. a aa) + (\<Sum>aa\<leftarrow>amino. b aa)"
    by (rule sum_list_addf)
  also have "\<dots> = v + (\<Sum>(m, v, c)\<leftarrow>t. v)"
    using one ih by (simp add: b_def)
  finally have
    "(\<Sum>aa\<leftarrow>amino. \<Sum>(m, v, c)\<leftarrow>[(m, v, c) \<leftarrow> (m, v, c) # t. str_get m idx = Some aa]. v) =
      (\<Sum>(m, v, c)\<leftarrow>(m, v, c) # t. v)"
    by simp
  then show ?case unfolding r .
qed

lemma emitted_sum:
  assumes "\<And>vs. Series_sum h vs = sum_list vs"
    and "\<And>m v c. (m, v, c) \<in> set t \<Longrightarrow> str_get m idx \<in> Some ` set amino"
  shows "(\<Sum>aa\<leftarrow>amino. row_value (emit_row h t col mut idx nm aa)) = col_sum h t"
proof (cases "col_sum h t = 0")
  case True
  then show ?thesis by (simp add: emit_row_def amino_def)
next
  case False
  have "(\<Sum>aa\<leftarrow>amino. row_value (emit_row h t col mut idx nm aa)) =
      (\<Sum>aa\<leftarrow>amino. \<Sum>(m, v, c)\<leftarrow>[(m, v, c) \<leftarrow> t. str_get m idx = Some aa]. v)"
    using False by (simp add: emit_row_def col_sum_exact [OF assms(1)])
  also have "\<dots> = (\<Sum>(m, v, c)\<leftarrow>t. v)"
    by (rule conservation) (rule assms(2))
  finally show ?thesis by (simp add: col_sum_exact [OF assms(1)])
qed

lemma sum_list_amino: "(\<Sum>aa\<leftarrow>amino. f aa) = (\<Sum>k\<leftarrow>[0..<4]. f (amino ! k))"
  by (simp add: amino_def upt_rec numeral_eq_Suc )

lemma parse_lager_context_df_rows:
  assumes "map_of (samples df) col = Some vals" and "context_col df = Some ctx"
    and "len_MutationType_0 df = Inr n"
    and "generate_numbers h (int n - 4) = Inr numbers"
    and "generate_sequence h (int n - 4) = Inr seq"
  shows "parse_lager_context_df h df col =
     Inr (concat (map (class_block h (col_df_of df vals ctx) col (zip numbers seq))
            (MUTATION_LIST h)))"
  using mutation_loop_eq [OF assms(3-5)] assms(1,2)
  by (simp add: parse_lager_context_df_def)

text \<open>
  A table with the labels 0, 1, 2, ... and at least one row: the label 0 names the
  first row.
\<close>

lemma MutationType_0_default:
  assumes "index df = map int [0..<length (MutationType df)]" and "MutationType df = m # ms"
  shows "len_MutationType_0 df = Inr (length m)"
proof -
  have "[(l, m') \<leftarrow> zip (map int [Suc 0..<Suc (length ms)]) ms. l = 0] = []"
    by (auto simp: filter_empty_conv dest!: set_zip_leftD)
  then have "MutationType_0 df = [m]"
    using assms by (simp add: MutationType_0_def upt_conv_Cons del: upt_Suc)
  then show ?thesis by (simp add: len_MutationType_0_def)
qed

subsection \<open>Claims about parse_lager_context_df\<close>

text \<open>
  C1 (as amended). Let the sums of pandas be exact, as they are for a column of
  counts. Let the table have the sample column \<open>col\<close> and the column \<open>context\<close>, let
  the label 0 name a row, so that \<open>len(df["MutationType"][0])\<close> is a number \<open>n\<close>, and
  let the position helpers return the positions \<open>ps\<close> (index and label) for it. For
  class number \<open>i\<close> of \<open>MUTATION_LIST\<close> and position number \<open>j\<close>, if the column total
  over the rows of the class is positive and every string of the class has one of A,
  C, T, G at the position, then the call returns rows, and the four rows emitted for
  the class and the position (one per base, in the order A, C, T, G) have values that
  sum to exactly that total.
\<close>

theorem parse_lager_context_df_conservation:
  assumes "\<forall>vs. Series_sum h vs = sum_list vs"
    and "map_of (samples df) col = Some vals" and "context_col df = Some ctx"
    and "len_MutationType_0 df = Inr n"
    and "generate_numbers h (int n - 4) = Inr numbers"
    and "generate_sequence h (int n - 4) = Inr seq"
    and "ps = zip numbers seq"
    and "i < length (MUTATION_LIST h)" and "j < length ps"
    and "temp_df = class_rows (col_df_of df vals ctx) (MUTATION_LIST h ! i)"
    and "0 < col_sum h temp_df"
    and "\<forall>(m, v, c) \<in> set temp_df. str_get m (fst (ps ! j)) \<in> Some ` set amino"
  shows "\<exists>rows. parse_lager_context_df h df col = Inr rows \<and>
     (\<Sum>k\<leftarrow>[0..<4]. row_value (rows ! (4 * (i * length ps + j) + k))) = col_sum h temp_df \<and>
     (\<forall>k<4. row_context (rows ! (4 * (i * length ps + j) + k)) = MUTATION_LIST h ! i \<and>
            row_name (rows ! (4 * (i * length ps + j) + k)) = snd (ps ! j) \<and>
            row_variable (rows ! (4 * (i * length ps + j) + k)) = amino ! k \<and>
            row_sbs (rows ! (4 * (i * length ps + j) + k)) = col)"
proof -
  let ?mut = "MUTATION_LIST h ! i"
  let ?rows = "concat (map (class_block h (col_df_of df vals ctx) col ps) (MUTATION_LIST h))"
  let ?emit = "emit_row h temp_df col ?mut (fst (ps ! j)) (snd (ps ! j))"
  have exact: "Series_sum h vs = sum_list vs" for vs
    using assms(1) by simp
  have parse: "parse_lager_context_df h df col = Inr ?rows"
    unfolding assms(7) by (rule parse_lager_context_df_rows [OF assms(2-6)])
  have nth: "?rows ! (4 * (i * length ps + j) + k) = ?emit (amino ! k)" if "k < 4" for k
    unfolding assms(10) by (rule rows_nth [OF assms(8,9) that])
  have "map (\<lambda>k. row_value (?rows ! (4 * (i * length ps + j) + k))) [0..<4] =
      map (\<lambda>k. row_value (?emit (amino ! k))) [0..<4]"
    by (rule map_cong [OF refl]) (simp only: nth atLeastLessThan_iff set_upt)
  then have "(\<Sum>k\<leftarrow>[0..<4]. row_value (?rows ! (4 * (i * length ps + j) + k))) =
      (\<Sum>k\<leftarrow>[0..<4]. row_value (?emit (amino ! k)))"
    by (rule arg_cong)
  also have "\<dots> = (\<Sum>aa\<leftarrow>amino. row_value (?emit aa))"
    by (rule sum_list_amino [symmetric])
  also have "\<dots> = col_sum h temp_df"
    using assms(12) by (intro emitted_sum exact) auto
  finally have total: "(\<Sum>k\<leftarrow>[0..<4]. row_value (?rows ! (4 * (i * length ps + j) + k))) =
      col_sum h temp_df" .
  have fields: "row_context (?rows ! (4 * (i * length ps + j) + k)) = ?mut \<and>
            row_name (?rows ! (4 * (i * length ps + j) + k)) = snd (ps ! j) \<and>
            row_variable (?rows ! (4 * (i * length ps + j) + k)) = amino ! k \<and>
            row_sbs (?rows ! (4 * (i * length ps + j) + k)) = col" if "k < 4" for k
    unfolding nth [OF that] by (simp add: emit_row_def)
  from parse total fields show ?thesis by blast
qed

text \<open>
  The column SBS10 of the example table: the class A[C>A]A has the total 3/4, and at
  the position 8 its two rows have the bases A and T.
\<close>

theorem parse_lager_context_df_conservation_witness:
  "\<exists>rows. parse_lager_context_df example_helpers example_context_table ''SBS10'' = Inr rows \<and>
     (\<Sum>k\<leftarrow>[0..<4]. row_value (rows ! (4 * (0 * 2 + 1) + k))) = 3 / 4"
proof -
  let ?vals = "[1 / 2, 1 / 4, 1 / 4, 1] :: real list"
  let ?ctx = "[Some ''A[C>A]A'', Some ''A[C>A]A'', Some ''A[C>G]A'', None]"
  let ?temp = "[(''AA[C>A]AA'', 1 / 2, Some ''A[C>A]A''), (''CA[C>A]AT'', 1 / 4, Some ''A[C>A]A'')]
    :: col_row list"
  have h0: "\<forall>vs. Series_sum example_helpers vs = sum_list vs"
    by (simp add: example_helpers_def)
  have h1: "map_of (samples example_context_table) ''SBS10'' = Some ?vals"
    by (simp add: example_context_table_def example_table_def)
  have h2: "context_col example_context_table = Some ?ctx"
    by (simp add: example_context_table_def)
  have h3: "len_MutationType_0 example_context_table = Inr 9"
    by (simp add: len_MutationType_0_def MutationType_0_def example_context_table_def
        example_table_def)
  have h4: "generate_numbers example_helpers (int 9 - 4) = Inr [0, 8]"
    by (simp add: example_helpers_def)
  have h5: "generate_sequence example_helpers (int 9 - 4) = Inr [- 2, 2]"
    by (simp add: example_helpers_def)
  have h6: "[(0, - 2), (8, 2)] = zip [0, 8] [- 2, 2 :: int]"
    by simp
  have h7: "0 < length (MUTATION_LIST example_helpers)"
    by (simp add: example_helpers_def)
  have h8: "1 < length [(0 :: int, - 2 :: int), (8, 2)]"
    by simp
  have h9: "?temp = class_rows (col_df_of example_context_table ?vals ?ctx)
      (MUTATION_LIST example_helpers ! 0)"
    by (simp add: class_rows_def col_df_of_def example_context_table_def example_table_def
        example_helpers_def)
  have h10: "0 < col_sum example_helpers ?temp"
    by (simp add: col_sum_def example_helpers_def)
  have h11: "\<forall>(m, v, c) \<in> set ?temp. str_get m (fst ([(0, - 2), (8, 2 :: int)] ! 1)) \<in> Some ` set amino"
    by (simp add: str_get_def amino_def)
  from parse_lager_context_df_conservation [OF h0 h1 h2 h3 h4 h5 h6 h7 h8 h9 h10 h11]
  show ?thesis
    by (auto simp: col_sum_def example_helpers_def)
qed

text \<open>
  With float64 the sums round. The three cells 0.2, 0.1 and 0.7 of one class add up,
  from first to last, to the total 1. At the position 0 the first and the third row
  have the base A and the second row the base C: the values emitted for A, C, T and G
  are 0.8999999999999999, 0.1, 0 and 0, whose sum, exact or in float64, is not 1. C1
  as stated fails here.
\<close>

lemma float64_exponent_eq:
  assumes "- 1022 \<le> e" and "e \<le> 1023" and "2 powi e \<le> \<bar>x\<bar>" and "\<bar>x\<bar> < 2 powi (e + 1)"
  shows "float64_exponent x = e"
proof -
  define es :: "int list" where "es = [- 1022..1023]"
  define i where "i = nat (e + 1022)"
  have i: "i < length es"
    using assms(1,2) by (simp add: es_def i_def)
  have nth: "es ! j = - 1022 + int j" if "j \<le> i" for j
    unfolding es_def using that assms(1,2) by (intro nth_upto) (simp add: i_def)
  have before: "\<not> \<bar>x\<bar> < 2 powi (es ! j + 1)" if "j < i" for j
  proof -
    have "es ! j + 1 \<le> e"
      using that assms(1) by (simp add: nth i_def)
    then have "(2 :: real) powi (es ! j + 1) \<le> 2 powi e"
      by (intro power_int_increasing) simp_all
    with assms(3) show ?thesis by simp
  qed
  have at: "es ! i = e"
    using assms(1) by (simp add: nth i_def)
  then have "\<bar>x\<bar> < 2 powi (es ! i + 1)"
    using assms(4) by simp
  with at i before have "List.find (\<lambda>e. \<bar>x\<bar> < 2 powi (e + 1)) es = Some e"
    unfolding find_Some_iff by blast
  then show ?thesis
    by (simp add: float64_exponent_def es_def)
qed

lemma float64_round_eq:
  assumes "- 1022 \<le> e" and "e \<le> 1023" and "2 powi e \<le> \<bar>x\<bar>" and "\<bar>x\<bar> < 2 powi (e + 1)"
  shows "float64_round x = of_int (round_half_even (x / 2 powi (e - 52))) * 2 powi (e - 52)"
  by (simp add: float64_round_def float64_exponent_eq [OF assms])

lemma float64_round_0: "float64_round 0 = 0"
  by (simp add: float64_round_def round_half_even_def)


lemma float64_add_total:
  "float64_add 0 (3602879701896397 / 18014398509481984) = 3602879701896397 / 18014398509481984"
  "float64_add (3602879701896397 / 18014398509481984) (3602879701896397 / 36028797018963968) =
     1351079888211149 / 4503599627370496"
  "float64_add (1351079888211149 / 4503599627370496) (3152519739159347 / 4503599627370496) = 1"
proof -
  show "float64_add 0 (3602879701896397 / 18014398509481984) =
      3602879701896397 / 18014398509481984"
    unfolding float64_add_def
    by (subst float64_round_eq [where e = "- 3"])
      (simp_all add: power_int_def round_half_even_def power_divide)
  show "float64_add (3602879701896397 / 18014398509481984)
      (3602879701896397 / 36028797018963968) = 1351079888211149 / 4503599627370496"
    unfolding float64_add_def
    by (subst float64_round_eq [where e = "- 2"])
      (simp_all add: power_int_def round_half_even_def power_divide)
  show "float64_add (1351079888211149 / 4503599627370496)
      (3152519739159347 / 4503599627370496) = 1"
    unfolding float64_add_def
    by (subst float64_round_eq [where e = "0"])
      (simp_all add: power_int_def round_half_even_def power_divide)
qed

lemma float64_add_bases:
  "float64_add (3602879701896397 / 18014398509481984) (3152519739159347 / 4503599627370496) =
     2026619832316723 / 2251799813685248"
  "float64_add 0 (3602879701896397 / 36028797018963968) = 3602879701896397 / 36028797018963968"
proof -
  show "float64_add (3602879701896397 / 18014398509481984)
      (3152519739159347 / 4503599627370496) = 2026619832316723 / 2251799813685248"
    unfolding float64_add_def
    by (subst float64_round_eq [where e = "- 1"])
      (simp_all add: power_int_def round_half_even_def power_divide)
  show "float64_add 0 (3602879701896397 / 36028797018963968) =
      3602879701896397 / 36028797018963968"
    unfolding float64_add_def
    by (subst float64_round_eq [where e = "- 4"])
      (simp_all add: power_int_def round_half_even_def power_divide)
qed

lemma float64_add_emitted:
  "float64_add 0 (2026619832316723 / 2251799813685248) = 2026619832316723 / 2251799813685248"
  "float64_add (2026619832316723 / 2251799813685248) (3602879701896397 / 36028797018963968) =
     9007199254740991 / 9007199254740992"
  "float64_add (9007199254740991 / 9007199254740992) 0 = 9007199254740991 / 9007199254740992"
proof -
  show "float64_add 0 (2026619832316723 / 2251799813685248) =
      2026619832316723 / 2251799813685248"
    unfolding float64_add_def
    by (subst float64_round_eq [where e = "- 1"])
      (simp_all add: power_int_def round_half_even_def power_divide)
  show "float64_add (2026619832316723 / 2251799813685248)
      (3602879701896397 / 36028797018963968) = 9007199254740991 / 9007199254740992"
    unfolding float64_add_def
    by (subst float64_round_eq [where e = "- 1"])
      (simp_all add: power_int_def round_half_even_def power_divide)
  show "float64_add (9007199254740991 / 9007199254740992) 0 =
      9007199254740991 / 9007199254740992"
    unfolding float64_add_def
    by (subst float64_round_eq [where e = "- 1"])
      (simp_all add: power_int_def round_half_even_def power_divide)
qed

theorem parse_lager_context_df_float64_sums:
  "\<exists>rows. parse_lager_context_df float64_helpers float64_table ''SBS1'' = Inr rows \<and>
     col_sum float64_helpers
       [(''AA[C>A]AA'', 3602879701896397 / 18014398509481984, Some ''A[C>A]A''),
        (''CA[C>A]AA'', 3602879701896397 / 36028797018963968, Some ''A[C>A]A''),
        (''AA[C>A]AC'', 3152519739159347 / 4503599627370496, Some ''A[C>A]A'')] = 1 \<and>
     map row_value (take 4 rows) =
       [2026619832316723 / 2251799813685248, 3602879701896397 / 36028797018963968, 0, 0] \<and>
     sum_list (map row_value (take 4 rows)) \<noteq> 1 \<and>
     float64_sum (map row_value (take 4 rows)) \<noteq> 1"
proof -
  let ?vals = "[3602879701896397 / 18014398509481984, 3602879701896397 / 36028797018963968,
    3152519739159347 / 4503599627370496] :: real list"
  let ?ctx = "[Some ''A[C>A]A'', Some ''A[C>A]A'', Some ''A[C>A]A'']"
  let ?temp = "[(''AA[C>A]AA'', 3602879701896397 / 18014398509481984, Some ''A[C>A]A''),
        (''CA[C>A]AA'', 3602879701896397 / 36028797018963968, Some ''A[C>A]A''),
        (''AA[C>A]AC'', 3152519739159347 / 4503599627370496, Some ''A[C>A]A'')] :: col_row list"
  let ?emit = "emit_row float64_helpers ?temp ''SBS1'' ''A[C>A]A''"
  define rows where "rows = concat (map
      (class_block float64_helpers (col_df_of float64_table ?vals ?ctx) ''SBS1''
         (zip [0, 8] [- 2, 2 :: int]))
      (MUTATION_LIST float64_helpers))"
  have h1: "map_of (samples float64_table) ''SBS1'' = Some ?vals"
    by (simp add: float64_table_def)
  have h2: "context_col float64_table = Some ?ctx"
    by (simp add: float64_table_def)
  have h3: "len_MutationType_0 float64_table = Inr 9"
    by (simp add: len_MutationType_0_def MutationType_0_def float64_table_def)
  have h4: "generate_numbers float64_helpers (int 9 - 4) = Inr [0, 8]"
    by (simp add: float64_helpers_def example_helpers_def)
  have h5: "generate_sequence float64_helpers (int 9 - 4) = Inr [- 2, 2]"
    by (simp add: float64_helpers_def example_helpers_def)
  have parse: "parse_lager_context_df float64_helpers float64_table ''SBS1'' = Inr rows"
    unfolding rows_def by (rule parse_lager_context_df_rows [OF h1 h2 h3 h4 h5])
  have temp: "class_rows (col_df_of float64_table ?vals ?ctx) ''A[C>A]A'' = ?temp"
    by (simp add: class_rows_def col_df_of_def float64_table_def)
  have total: "col_sum float64_helpers ?temp = 1"
    by (simp add: col_sum_def float64_helpers_def float64_sum_def float64_add_total)
  have "take 4 rows = map (?emit 0 (- 2)) amino"
    by (simp add: rows_def float64_helpers_def example_helpers_def class_block_def temp
        amino_def)
  then have "map row_value (take 4 rows) = map (\<lambda>aa. row_value (?emit 0 (- 2) aa)) amino"
    by simp
  also have "\<dots> =
      [2026619832316723 / 2251799813685248, 3602879701896397 / 36028797018963968, 0, 0]"
    using total
    by (simp add: emit_row_def amino_def str_get_def col_sum_def float64_helpers_def
        float64_sum_def float64_add_total float64_add_bases)
  finally have emitted: "map row_value (take 4 rows) =
      [2026619832316723 / 2251799813685248, 3602879701896397 / 36028797018963968, 0, 0]" .
  have "float64_sum
      [2026619832316723 / 2251799813685248, 3602879701896397 / 36028797018963968, 0, 0] =
      9007199254740991 / 9007199254740992"
    by (simp add: float64_sum_def float64_add_emitted)
  with parse total emitted show ?thesis
    by (intro exI [of _ rows]) simp
qed

text \<open>
  C2 (as amended). For a table in which the label 0 names a row, so that
  \<open>len(df["MutationType"][0])\<close> is a number \<open>n\<close>, and for which the position helpers
  return: if the column total over the rows of class number \<open>i\<close> is zero (in
  particular when the class has no rows), then the call returns rows, and every row
  emitted for the class, at each position and for each of the four bases, has the
  value zero.
\<close>

theorem parse_lager_context_df_zero_total:
  assumes "map_of (samples df) col = Some vals" and "context_col df = Some ctx"
    and "len_MutationType_0 df = Inr n"
    and "generate_numbers h (int n - 4) = Inr numbers"
    and "generate_sequence h (int n - 4) = Inr seq"
    and "ps = zip numbers seq"
    and "i < length (MUTATION_LIST h)"
    and "col_sum h (class_rows (col_df_of df vals ctx) (MUTATION_LIST h ! i)) = 0"
  shows "\<exists>rows. parse_lager_context_df h df col = Inr rows \<and>
     (\<forall>j<length ps. \<forall>k<4.
        row_value (rows ! (4 * (i * length ps + j) + k)) = 0 \<and>
        row_context (rows ! (4 * (i * length ps + j) + k)) = MUTATION_LIST h ! i \<and>
        row_name (rows ! (4 * (i * length ps + j) + k)) = snd (ps ! j) \<and>
        row_variable (rows ! (4 * (i * length ps + j) + k)) = amino ! k \<and>
        row_sbs (rows ! (4 * (i * length ps + j) + k)) = col)"
proof -
  let ?rows = "concat (map (class_block h (col_df_of df vals ctx) col ps) (MUTATION_LIST h))"
  have parse: "parse_lager_context_df h df col = Inr ?rows"
    unfolding assms(6) by (rule parse_lager_context_df_rows [OF assms(1-5)])
  have "row_value (?rows ! (4 * (i * length ps + j) + k)) = 0 \<and>
        row_context (?rows ! (4 * (i * length ps + j) + k)) = MUTATION_LIST h ! i \<and>
        row_name (?rows ! (4 * (i * length ps + j) + k)) = snd (ps ! j) \<and>
        row_variable (?rows ! (4 * (i * length ps + j) + k)) = amino ! k \<and>
        row_sbs (?rows ! (4 * (i * length ps + j) + k)) = col" if "j < length ps" "k < 4" for j k
    unfolding rows_nth [OF assms(7) that] using assms(8) by (simp add: emit_row_def)
  with parse show ?thesis by blast
qed

text \<open>The class A[T>A]A of the example table has no rows.\<close>

theorem parse_lager_context_df_zero_total_witness:
  "\<exists>rows. parse_lager_context_df example_helpers example_context_table ''SBS10'' = Inr rows \<and>
     (\<forall>j<2. \<forall>k<4. row_value (rows ! (4 * (3 * 2 + j) + k)) = 0)"
proof -
  let ?vals = "[1 / 2, 1 / 4, 1 / 4, 1] :: real list"
  let ?ctx = "[Some ''A[C>A]A'', Some ''A[C>A]A'', Some ''A[C>G]A'', None]"
  have h1: "map_of (samples example_context_table) ''SBS10'' = Some ?vals"
    by (simp add: example_context_table_def example_table_def)
  have h2: "context_col example_context_table = Some ?ctx"
    by (simp add: example_context_table_def)
  have h3: "len_MutationType_0 example_context_table = Inr 9"
    by (simp add: len_MutationType_0_def MutationType_0_def example_context_table_def
        example_table_def)
  have h4: "generate_numbers example_helpers (int 9 - 4) = Inr [0, 8]"
    by (simp add: example_helpers_def)
  have h5: "generate_sequence example_helpers (int 9 - 4) = Inr [- 2, 2]"
    by (simp add: example_helpers_def)
  have h6: "[(0, - 2), (8, 2)] = zip [0, 8] [- 2, 2 :: int]"
    by simp
  have h7: "3 < length (MUTATION_LIST example_helpers)"
    by (simp add: example_helpers_def)
  have h8: "col_sum example_helpers (class_rows (col_df_of example_context_table ?vals ?ctx)
      (MUTATION_LIST example_helpers ! 3)) = 0"
    by (simp add: class_rows_def col_df_of_def example_context_table_def example_table_def
        example_helpers_def col_sum_def)
  from parse_lager_context_df_zero_total [OF h1 h2 h3 h4 h5 h6 h7 h8] show ?thesis
    by auto
qed

text \<open>
  On a table without rows every class has the total zero, yet the call fails: the
  label 0, looked up for the length of its string, is missing. C2 as stated fails
  here.
\<close>

theorem parse_lager_context_df_empty_table:
  "col_sum example_helpers (class_rows (col_df_of empty_table [] []) ''A[C>A]A'') = 0 \<and>
   parse_lager_context_df example_helpers empty_table ''SBS1'' = Inl KeyError"
  by (simp add: col_sum_def class_rows_def col_df_of_def empty_table_def
      parse_lager_context_df_def example_helpers_def len_MutationType_0_def
      MutationType_0_def)

text \<open>
  C5 (as amended). Let the label 0 name a row, so that \<open>len(df["MutationType"][0])\<close>
  is a number \<open>L\<close>: the length of the first mutation-type string in a table with the
  labels 0, 1, 2, ... With the six classes of the specification as \<open>MUTATION_LIST\<close>
  and position helpers that return one index and one label for each of the \<open>L - 4\<close>
  positions, the rows are emitted class by class in the order C>A, C>G, C>T, T>A, T>C,
  T>G, within a class position by position, and within a position in the order A, C,
  T, G of the bases; there are exactly \<open>6 * 4 * (L - 4)\<close> rows.
\<close>

theorem parse_lager_context_df_order:
  assumes "MUTATION_LIST h = MUTATION_LIST_spec"
    and "map_of (samples df) col = Some vals" and "context_col df = Some ctx"
    and "len_MutationType_0 df = Inr L"
    and "position_scheme_spec (generate_numbers h) (generate_sequence h) (int L - 4)"
  shows "\<exists>rows numbers seq.
     parse_lager_context_df h df col = Inr rows \<and>
     generate_numbers h (int L - 4) = Inr numbers \<and>
     generate_sequence h (int L - 4) = Inr seq \<and>
     map (\<lambda>r. (row_context r, row_name r, row_variable r)) rows =
       [(mut, nm, aa). mut \<leftarrow> [''C>A'', ''C>G'', ''C>T'', ''T>A'', ''T>C'', ''T>G''],
                       nm \<leftarrow> seq, aa \<leftarrow> [CHR ''A'', CHR ''C'', CHR ''T'', CHR ''G'']] \<and>
     int (length rows) = 6 * 4 * (int L - 4)"
proof -
  let ?n = "int L - 4"
  from assms(5) obtain numbers seq where
    gn: "generate_numbers h ?n = Inr numbers" and gs: "generate_sequence h ?n = Inr seq"
    and ln: "int (length numbers) = ?n" and ls: "int (length seq) = ?n"
    by (auto simp: position_scheme_spec_def split: sum.splits)
  let ?ps = "zip numbers seq"
  let ?rows = "concat (map (class_block h (col_df_of df vals ctx) col ?ps) (MUTATION_LIST h))"
  have parse: "parse_lager_context_df h df col = Inr ?rows"
    by (rule parse_lager_context_df_rows [OF assms(2-4) gn gs])
  have len: "length numbers = length seq"
    using ln ls by simp
  have block: "map (\<lambda>r. (row_context r, row_name r, row_variable r)) (class_block h cd col ?ps mut) =
      [(mut, nm, aa). nm \<leftarrow> seq, aa \<leftarrow> amino]" for cd mut
    using len
  proof (induction numbers seq rule: list_induct2)
    case Nil
    then show ?case by (simp add: class_block_def)
  next
    case (Cons x xs y ys)
    then show ?case by (simp add: class_block_def emit_row_def comp_def)
  qed
  have order: "map (\<lambda>r. (row_context r, row_name r, row_variable r)) ?rows =
      [(mut, nm, aa). mut \<leftarrow> MUTATION_LIST h, nm \<leftarrow> seq, aa \<leftarrow> amino]"
    by (simp add: map_concat comp_def block)
  have "length ?rows = length (MUTATION_LIST h) * (length ?ps * 4)"
    by (rule length_rows)
  then have count: "int (length ?rows) = 6 * 4 * ?n"
    using assms(1) len ln by (simp add: MUTATION_LIST_spec_def)
  from parse gn gs order count show ?thesis
    unfolding assms(1) MUTATION_LIST_spec_def amino_def by blast
qed

text \<open>A table of trinucleotide strings with the labels 0 and 1: \<open>L = 7\<close>, 72 rows.\<close>

theorem parse_lager_context_df_order_witness:
  "\<exists>rows numbers seq.
     parse_lager_context_df spec_example_helpers spec_example_table ''SBS1'' = Inr rows \<and>
     generate_numbers spec_example_helpers 3 = Inr numbers \<and>
     generate_sequence spec_example_helpers 3 = Inr seq \<and>
     map (\<lambda>r. (row_context r, row_name r, row_variable r)) rows =
       [(mut, nm, aa). mut \<leftarrow> [''C>A'', ''C>G'', ''C>T'', ''T>A'', ''T>C'', ''T>G''],
                       nm \<leftarrow> seq, aa \<leftarrow> [CHR ''A'', CHR ''C'', CHR ''T'', CHR ''G'']] \<and>
     length rows = 72"
proof -
  have h1: "MUTATION_LIST spec_example_helpers = MUTATION_LIST_spec"
    by (simp add: spec_example_helpers_def)
  have h2: "map_of (samples spec_example_table) ''SBS1'' = Some [1 / 4, 3 / 4]"
    by (simp add: spec_example_table_def)
  have h3: "context_col spec_example_table = Some [Some ''C>A'', Some ''C>A'']"
    by (simp add: spec_example_table_def)
  have h4: "len_MutationType_0 spec_example_table = Inr 7"
    by (simp add: len_MutationType_0_def MutationType_0_def spec_example_table_def)
  have h5: "position_scheme_spec (generate_numbers spec_example_helpers)
      (generate_sequence spec_example_helpers) (int 7 - 4)"
    by (simp add: position_scheme_spec_def spec_example_helpers_def)
  from parse_lager_context_df_order [OF h1 h2 h3 h4 h5] show ?thesis
    by simp
qed

text \<open>
  A table that has lost its first row has rows, and a first mutation-type string of
  length 7, but no label 0: with the same helpers the call raises KeyError and emits
  no row. C5 as stated fails here.
\<close>

theorem parse_lager_context_df_sliced_table:
  "MutationType sliced_table = [''A[C>A]C'', ''A[C>A]G''] \<and>
   parse_lager_context_df spec_example_helpers sliced_table ''SBS1'' = Inl KeyError"
  by (simp add: sliced_table_def parse_lager_context_df_def spec_example_helpers_def
      MUTATION_LIST_spec_def len_MutationType_0_def MutationType_0_def)

text \<open>
  What the pattern of larger_context_barplot extracts begins with a flanking base and
  an opening bracket, so it is never one of the six class names of the specification:
  with that list as \<open>MUTATION_LIST\<close>, no row of a table prepared by
  larger_context_barplot belongs to any class.
\<close>

lemma match_context_bracket:
  "match_context s = Some m \<Longrightarrow> \<exists>c rest. m = c # CHR ''['' # rest"
  by (cases s rule: match_context.cases) (auto split: if_splits option.splits)

lemma extract_context_bracket:
  "extract_context s = Some m \<Longrightarrow> \<exists>c rest. m = c # CHR ''['' # rest"
proof (induction s)
  case Nil
  then show ?case by simp
next
  case (Cons c cs)
  then show ?case
    by (cases "match_context (c # cs)") (auto dest: match_context_bracket)
qed

lemma extract_context_not_a_class:
  "extract_context s \<notin> Some ` set MUTATION_LIST_spec"
proof
  assume "extract_context s \<in> Some ` set MUTATION_LIST_spec"
  then obtain m where m: "extract_context s = Some m" "m \<in> set MUTATION_LIST_spec" by auto
  from extract_context_bracket [OF m(1)] m(2) show False
    by (auto simp: MUTATION_LIST_spec_def)
qed

lemma spec_classes_select_no_row:
  assumes "mut \<in> set MUTATION_LIST_spec"
  shows "class_rows (col_df_of df vals (map extract_context ms)) mut = []"
proof -
  have "c \<noteq> Some mut" if "(m, v, c) \<in> set (col_df_of df vals (map extract_context ms))" for m v c
  proof -
    from that have "(v, c) \<in> set (zip vals (map extract_context ms))"
      unfolding col_df_of_def by (rule set_zip_rightD)
    then have "c \<in> set (map extract_context ms)"
      by (rule set_zip_rightD)
    then obtain s where "c = extract_context s" by auto
    with extract_context_not_a_class [of s] assms show ?thesis by auto
  qed
  then show ?thesis
    by (auto simp: class_rows_def filter_empty_conv)
qed

subsection \<open>Claims about the bars of create_increased_context_barplot\<close>

lemma var_loop_bars:
  "var_loop h df x w nm vars (bottom, added, bars) = Inr (bottom', added', bars') \<Longrightarrow>
   map bar_x bars' = map bar_x bars @ replicate (length vars) x \<and>
   map bar_width bars' = map bar_width bars @ replicate (length vars) w"
proof (induction vars arbitrary: bottom added bars)
  case Nil
  then show ?case by simp
next
  case (Cons var vars)
  from Cons.prems obtain height color bottom1 where
    "var_loop h df x w nm vars
       (bottom1, insert var added,
        bars @ [\<lparr>bar_x = x, bar_height = height, bar_width = w, bar_bottom = bottom,
                 bar_color = color,
                 bar_label = (if var \<in> added then None else Some var)\<rparr>]) =
     Inr (bottom', added', bars')"
    by (auto split: option.splits sum.splits)
  from Cons.IH [OF this] show ?case
    by (simp add: replicate_append_same)
qed

lemma name_loop_bars:
  "name_loop h df w variable xs (added, bars) = Inr (added', bars') \<Longrightarrow>
   map bar_x bars' =
     map bar_x bars @ concat (map (\<lambda>(x, nm). replicate (length variable) x) xs) \<and>
   map bar_width bars' =
     map bar_width bars @ replicate (length xs * length variable) w"
proof (induction xs arbitrary: added bars)
  case Nil
  then show ?case by simp
next
  case (Cons p xs)
  obtain x nm where p: "p = (x, nm)" by (cases p)
  from Cons.prems p obtain bottom1 added1 bars1 where
    v: "var_loop h df x w nm variable (Scalar 0, added, bars) = Inr (bottom1, added1, bars1)"
    and n: "name_loop h df w variable xs (added1, bars1) = Inr (added', bars')"
    by (auto split: sum.splits)
  from var_loop_bars [OF v] Cons.IH [OF n] p show ?case
    by (simp add: replicate_add)
qed

lemma context_figure_bars:
  assumes "context_figure h df = Inr fig"
    and "x0 = [0..<length (unique (map row_context df))]"
    and "bar_positions (length (unique (map row_name df))) (map real x0) = (w, x1)"
    and "xs = zip x1 (unique (map row_name df))"
  shows "page_xticks fig = x0 \<and>
     map bar_x (page_bars fig) =
       concat (map (\<lambda>(x, nm). replicate (length (unique (map row_variable df))) x) xs) \<and>
     map bar_width (page_bars fig) =
       replicate (length xs * length (unique (map row_variable df))) w"
proof -
  from assms(1) have ne: "df \<noteq> []"
    by (auto simp: context_figure_def)
  from assms(1) obtain added bars where
    loop: "name_loop h df w (unique (map row_variable df)) xs ({}, []) = Inr (added, bars)"
    and fig: "page_bars fig = bars" "page_xticks fig = x0"
    unfolding context_figure_def Let_def assms(2) [symmetric] assms(3)
    using ne assms(4) by (auto split: sum.splits if_splits)
  from name_loop_bars [OF loop] fig show ?thesis by simp
qed

text \<open>
  C7. When the long-form rows have exactly two distinct names and the figure is
  built, every bar has the width 0.45; the bars of the first name, one call per base,
  are centred at \<open>x - 0.45 / 2\<close> and the bars of the second name at \<open>x + 0.45 / 2\<close>,
  for the tick positions \<open>x = 0, 1, ...\<close> of the contexts.
\<close>

theorem two_names_bar_positions:
  assumes "context_figure h df = Inr fig"
    and "length (unique (map row_name df)) = 2"
    and "n = length (unique (map row_variable df))"
  shows "map bar_x (page_bars fig) =
       replicate n (map (\<lambda>x. real x - (45 / 100) / 2) (page_xticks fig)) @
       replicate n (map (\<lambda>x. real x + (45 / 100) / 2) (page_xticks fig)) \<and>
     map bar_width (page_bars fig) = replicate (2 * n) (45 / 100) \<and>
     page_xticks fig = [0..<length (unique (map row_context df))]"
proof -
  let ?names = "unique (map row_name df)"
  let ?x0 = "[0..<length (unique (map row_context df))]"
  let ?l = "map (\<lambda>x. x - (45 / 100) / 2) (map real ?x0)"
  let ?r = "map (\<lambda>x. x + (45 / 100) / 2) (map real ?x0)"
  obtain n1 n2 where names: "?names = [n1, n2]"
    using assms(2) by (cases ?names rule: list.exhaust; simp)
      (metis Suc_length_conv length_0_conv)
  have pos: "bar_positions (length ?names) (map real ?x0) = (45 / 100, [?l, ?r])"
    unfolding assms(2) by (simp add: bar_positions_def Let_def)
  have xs: "[(?l, n1), (?r, n2)] = zip [?l, ?r] ?names"
    by (simp add: names)
  from context_figure_bars [OF assms(1) refl pos xs] assms(3) show ?thesis
    by (simp add: comp_def mult_2 replicate_add)
qed

text \<open>
  The figures of the two columns of the example table; the names are -2 and 2, so the
  bars of a context stand in pairs.
\<close>

lemma example_figures:
  "\<exists>rows fig rows' fig'.
     parse_lager_context_df example_helpers example_context_table ''SBS2'' = Inr rows \<and>
     context_figure example_helpers rows = Inr fig \<and>
     parse_lager_context_df example_helpers example_context_table ''SBS10'' = Inr rows' \<and>
     context_figure example_helpers rows' = Inr fig' \<and>
     length (unique (map row_name rows')) = 2 \<and>
     length (unique (map row_variable rows')) = 4 \<and>
     page_xticks fig' = [0, 1, 2, 3, 4, 5]"
  by (simp add: parse_lager_context_df_def example_helpers_def example_context_table_def
      example_table_def col_df_of_def len_MutationType_0_def MutationType_0_def
      class_rows_def amino_def
      emit_row_def col_sum_def str_get_def unique_def context_figure_def Let_def
      bar_positions_def group_values_def np_iadd_def format_xlabel_def upt_rec)

theorem two_names_bar_positions_witness:
  "\<exists>rows fig.
     parse_lager_context_df example_helpers example_context_table ''SBS10'' = Inr rows \<and>
     context_figure example_helpers rows = Inr fig \<and>
     map bar_x (page_bars fig) =
       replicate 4 [- (9 / 40), 31 / 40, 71 / 40, 111 / 40, 151 / 40, 191 / 40] @
       replicate 4 [9 / 40, 49 / 40, 89 / 40, 129 / 40, 169 / 40, 209 / 40] \<and>
     map bar_width (page_bars fig) = replicate 8 (9 / 20)"
proof -
  from example_figures obtain rows fig where
    p: "parse_lager_context_df example_helpers example_context_table ''SBS10'' = Inr rows"
    and f: "context_figure example_helpers rows = Inr fig"
    and n: "length (unique (map row_name rows)) = 2"
    and v: "4 = length (unique (map row_variable rows))"
    and x: "page_xticks fig = [0, 1, 2, 3, 4, 5]"
    by auto
  from two_names_bar_positions [OF f n v] x have
    "map bar_x (page_bars fig) =
       replicate 4 [- (9 / 40), 31 / 40, 71 / 40, 111 / 40, 151 / 40, 191 / 40] @
       replicate 4 [9 / 40, 49 / 40, 89 / 40, 129 / 40, 169 / 40, 209 / 40] \<and>
     map bar_width (page_bars fig) = replicate 8 (9 / 20)"
    by simp
  with p f show ?thesis by blast
qed

subsection \<open>The loops over the columns\<close>

text \<open>All rows that parse_lager_context_df returns name the column in \<open>sbs\<close>.\<close>

lemma mutation_loop_sbs:
  "mutation_loop h df col_df col muts res = Inr rows \<Longrightarrow> (\<forall>r \<in> set res. row_sbs r = col) \<Longrightarrow>
   \<forall>r \<in> set rows. row_sbs r = col"
proof (induction muts arbitrary: res)
  case Nil
  then show ?case by simp
next
  case (Cons mut muts)
  from Cons.prems(1) obtain ps where
    "mutation_loop h df col_df col muts
       (position_loop h (class_rows col_df mut) col mut ps res) = Inr rows"
    by (auto split: sum.splits)
  moreover have "\<forall>r \<in> set (position_loop h (class_rows col_df mut) col mut ps res). row_sbs r = col"
    using Cons.prems(2) by (auto simp: position_loop_eq emit_row_def)
  ultimately show ?case by (rule Cons.IH)
qed

lemma context_figure_title:
  assumes "parse_lager_context_df h df col = Inr rows" and "context_figure h rows = Inr fig"
  shows "page_title fig = col"
proof -
  from assms(1) have "\<forall>r \<in> set rows. row_sbs r = col"
    by (auto simp: parse_lager_context_df_def split: option.splits dest: mutation_loop_sbs)
  moreover from assms(2) have "rows \<noteq> []" and "page_title fig = row_sbs (hd rows)"
    by (auto simp: context_figure_def Let_def split: if_splits sum.splits prod.splits)
  ultimately show ?thesis by simp
qed

lemma standard_figure_title: "standard_figure h df col = Inr fig \<Longrightarrow> page_title fig = col"
  by (auto simp: standard_figure_def Let_def split: option.splits sum.splits)

text \<open>
  The outcome of a loop over the columns: its result is the first error that a column
  raises, and it saves the pages of the columns before that one, each under the title
  of its column.
\<close>

lemma larger_columns_loop_outcome:
  "\<exists>figs. larger_columns_loop h backend df cols evs =
       (first_error (map (\<lambda>c. fst (larger_columns_loop h backend df [c] [])) cols),
        evs @ map Saved figs) \<and>
     map figure_title figs =
       takeWhile (\<lambda>c. fst (larger_columns_loop h backend df [c] []) = Inr ()) cols"
proof (induction cols arbitrary: evs)
  case Nil
  have "larger_columns_loop h backend df [] evs = (first_error [], evs @ map Saved [])"
    by simp
  then show ?case by auto
next
  case (Cons c cs)
  let ?one = "\<lambda>c. fst (larger_columns_loop h backend df [c] [])"
  show ?case
  proof (cases "parse_lager_context_df h df c")
    case (Inl e)
    then have "larger_columns_loop h backend df (c # cs) evs =
        (first_error (map ?one (c # cs)), evs @ map Saved [])" and "?one c \<noteq> Inr ()"
      by simp_all
    then show ?thesis by auto
  next
    case rows: (Inr rows)
    show ?thesis
    proof (cases "context_figure h rows")
      case (Inl e)
      with rows have "larger_columns_loop h backend df (c # cs) evs =
          (first_error (map ?one (c # cs)), evs @ map Saved [])" and "?one c \<noteq> Inr ()"
        by (simp_all add: create_increased_context_barplot_def)
      then show ?thesis by auto
    next
      case fig: (Inr fig)
      show ?thesis
      proof (cases "draw backend (Context_figure fig)")
        case (Some e)
        with rows fig have "larger_columns_loop h backend df (c # cs) evs =
            (first_error (map ?one (c # cs)), evs @ map Saved [])" and "?one c \<noteq> Inr ()"
          by (simp_all add: create_increased_context_barplot_def savefig_def)
        then show ?thesis by auto
      next
        case None
        from Cons.IH [of "evs @ [Saved (Context_figure fig)]"] obtain figs where
          ih: "larger_columns_loop h backend df cs (evs @ [Saved (Context_figure fig)]) =
            (first_error (map ?one cs), (evs @ [Saved (Context_figure fig)]) @ map Saved figs)"
          and titles: "map figure_title figs = takeWhile (\<lambda>c. ?one c = Inr ()) cs"
          by blast
        have one: "?one c = Inr ()"
          using rows fig None by (simp add: create_increased_context_barplot_def savefig_def)
        have "larger_columns_loop h backend df (c # cs) evs =
            larger_columns_loop h backend df cs (evs @ [Saved (Context_figure fig)])"
          using rows fig None by (simp add: create_increased_context_barplot_def savefig_def)
        with ih one have "larger_columns_loop h backend df (c # cs) evs =
            (first_error (map ?one (c # cs)), evs @ map Saved (Context_figure fig # figs))"
          by simp
        moreover have "map figure_title (Context_figure fig # figs) =
            takeWhile (\<lambda>c. ?one c = Inr ()) (c # cs)"
          using one titles context_figure_title [OF rows fig] by (simp add: figure_title_def)
        ultimately show ?thesis by blast
      qed
    qed
  qed
qed

lemma standard_columns_loop_outcome:
  "\<exists>figs. standard_columns_loop h backend df cols evs =
       (first_error (map (\<lambda>c. fst (standard_columns_loop h backend df [c] [])) cols),
        evs @ map Saved figs) \<and>
     map figure_title figs =
       takeWhile (\<lambda>c. fst (standard_columns_loop h backend df [c] []) = Inr ()) cols"
proof (induction cols arbitrary: evs)
  case Nil
  have "standard_columns_loop h backend df [] evs = (first_error [], evs @ map Saved [])"
    by simp
  then show ?case by auto
next
  case (Cons c cs)
  let ?one = "\<lambda>c. fst (standard_columns_loop h backend df [c] [])"
  show ?case
  proof (cases "standard_figure h df c")
    case (Inl e)
    then have "standard_columns_loop h backend df (c # cs) evs =
        (first_error (map ?one (c # cs)), evs @ map Saved [])" and "?one c \<noteq> Inr ()"
      by (simp_all add: parse_96_df_def)
    then show ?thesis by auto
  next
    case fig: (Inr fig)
    show ?thesis
    proof (cases "draw backend (Standard_figure fig)")
      case (Some e)
      with fig have "standard_columns_loop h backend df (c # cs) evs =
          (first_error (map ?one (c # cs)), evs @ map Saved [])" and "?one c \<noteq> Inr ()"
        by (simp_all add: parse_96_df_def savefig_def)
      then show ?thesis by auto
    next
      case None
      from Cons.IH [of "evs @ [Saved (Standard_figure fig)]"] obtain figs where
        ih: "standard_columns_loop h backend df cs (evs @ [Saved (Standard_figure fig)]) =
          (first_error (map ?one cs), (evs @ [Saved (Standard_figure fig)]) @ map Saved figs)"
        and titles: "map figure_title figs = takeWhile (\<lambda>c. ?one c = Inr ()) cs"
        by blast
      have one: "?one c = Inr ()"
        using fig None by (simp add: parse_96_df_def savefig_def)
      have "standard_columns_loop h backend df (c # cs) evs =
          standard_columns_loop h backend df cs (evs @ [Saved (Standard_figure fig)])"
        using fig None by (simp add: parse_96_df_def savefig_def)
      with ih one have "standard_columns_loop h backend df (c # cs) evs =
          (first_error (map ?one (c # cs)), evs @ map Saved (Standard_figure fig # figs))"
        by simp
      moreover have "map figure_title (Standard_figure fig # figs) =
          takeWhile (\<lambda>c. ?one c = Inr ()) (c # cs)"
        using one titles standard_figure_title [OF fig] by (simp add: figure_title_def)
      ultimately show ?thesis by blast
    qed
  qed
qed

lemma larger_context_barplot_unfold:
  "larger_context_barplot h backend df folder_path evs =
     (fst (with_PdfPages backend
        (folder_path @ [''signatures.'' @ str_nat (shape0 df) @ ''.pdf''])
        (larger_columns_loop h backend
           (df\<lparr>context_col := Some (map extract_context (MutationType df))\<rparr>)
           (sort_key (custom_sort_column_names h) (map fst (samples df)))) evs),
      df\<lparr>context_col := Some (map extract_context (MutationType df))\<rparr>,
      snd (with_PdfPages backend
        (folder_path @ [''signatures.'' @ str_nat (shape0 df) @ ''.pdf''])
        (larger_columns_loop h backend
           (df\<lparr>context_col := Some (map extract_context (MutationType df))\<rparr>)
           (sort_key (custom_sort_column_names h) (map fst (samples df)))) evs))"
proof -
  have cols: "butlast (tl (columns (df\<lparr>context_col := Some (map extract_context (MutationType df))\<rparr>))) =
      map fst (samples df)"
    by (simp add: columns_def butlast_append)
  have sh: "shape0 (df\<lparr>context_col := Some (map extract_context (MutationType df))\<rparr>) = shape0 df"
    by (simp add: shape0_def)
  show ?thesis
    unfolding larger_context_barplot_def Let_def cols sh
    by (simp only: case_prod_beta)
qed

lemma saved_figures_simps:
  "saved_figures [] = []"
  "saved_figures (Opened p # evs) = saved_figures evs"
  "saved_figures (Saved f # evs) = f # saved_figures evs"
  "saved_figures (Closed p # evs) = saved_figures evs"
  "saved_figures (evs @ evs') = saved_figures evs @ saved_figures evs'"
  by (simp_all add: saved_figures_def)

lemma saved_figures_Saved: "saved_figures (map Saved figs) = figs"
  by (induction figs) (simp_all add: saved_figures_simps)

lemma opened_paths_simps:
  "opened_paths [] = []"
  "opened_paths (Opened p # evs) = p # opened_paths evs"
  "opened_paths (Saved f # evs) = opened_paths evs"
  "opened_paths (Closed p # evs) = opened_paths evs"
  "opened_paths (evs @ evs') = opened_paths evs @ opened_paths evs'"
  by (simp_all add: opened_paths_def)

lemma opened_paths_Saved: "opened_paths (map Saved figs) = []"
  by (induction figs) (simp_all add: opened_paths_simps)

text \<open>
  The two reports when the document can be opened, and when it cannot.
\<close>

lemma larger_context_barplot_outcome:
  assumes "df' = df\<lparr>context_col := Some (map extract_context (MutationType df))\<rparr>"
    and "cols = sort_key (custom_sort_column_names h) (map fst (samples df))"
    and "p = folder_path @ [''signatures.'' @ str_nat (length (MutationType df)) @ ''.pdf'']"
    and "open_file backend p = None"
  shows "\<exists>figs. larger_context_barplot h backend df folder_path evs =
       (case close_file backend p of
          Some e \<Rightarrow> Inl e
        | None \<Rightarrow> first_error (map (\<lambda>c. fst (larger_columns_loop h backend df' [c] [])) cols),
        df', evs @ [Opened p] @ map Saved figs @ [Closed p]) \<and>
     map figure_title figs =
       takeWhile (\<lambda>c. fst (larger_columns_loop h backend df' [c] []) = Inr ()) cols"
proof -
  from larger_columns_loop_outcome [of h backend df' cols "evs @ [Opened p]"]
  obtain figs where
    loop: "larger_columns_loop h backend df' cols (evs @ [Opened p]) =
       (first_error (map (\<lambda>c. fst (larger_columns_loop h backend df' [c] [])) cols),
        (evs @ [Opened p]) @ map Saved figs)"
    and titles: "map figure_title figs =
       takeWhile (\<lambda>c. fst (larger_columns_loop h backend df' [c] []) = Inr ()) cols"
    by blast
  have "larger_context_barplot h backend df folder_path evs =
       (case close_file backend p of
          Some e \<Rightarrow> Inl e
        | None \<Rightarrow> first_error (map (\<lambda>c. fst (larger_columns_loop h backend df' [c] [])) cols),
        df', evs @ [Opened p] @ map Saved figs @ [Closed p])"
    unfolding larger_context_barplot_unfold shape0_def
      assms(1) [symmetric] assms(2) [symmetric] assms(3) [symmetric]
    using assms(4) loop by (simp add: with_PdfPages_def split: option.splits)
  with titles show ?thesis by blast
qed

lemma create_96_barplot_outcome:
  assumes "cols = sort_key (custom_sort_column_names h) (tl (columns df))"
    and "p = figure_folder @ [''signatures.96.pdf'']"
    and "open_file backend p = None"
  shows "\<exists>figs. create_96_barplot h backend df figure_folder evs =
       (case close_file backend p of
          Some e \<Rightarrow> Inl e
        | None \<Rightarrow> first_error (map (\<lambda>c. fst (standard_columns_loop h backend df [c] [])) cols),
        evs @ [Opened p] @ map Saved figs @ [Closed p]) \<and>
     map figure_title figs =
       takeWhile (\<lambda>c. fst (standard_columns_loop h backend df [c] []) = Inr ()) cols"
proof -
  from standard_columns_loop_outcome [of h backend df cols "evs @ [Opened p]"]
  obtain figs where
    loop: "standard_columns_loop h backend df cols (evs @ [Opened p]) =
       (first_error (map (\<lambda>c. fst (standard_columns_loop h backend df [c] [])) cols),
        (evs @ [Opened p]) @ map Saved figs)"
    and titles: "map figure_title figs =
       takeWhile (\<lambda>c. fst (standard_columns_loop h backend df [c] []) = Inr ()) cols"
    by blast
  have "create_96_barplot h backend df figure_folder evs =
       (case close_file backend p of
          Some e \<Rightarrow> Inl e
        | None \<Rightarrow> first_error (map (\<lambda>c. fst (standard_columns_loop h backend df [c] [])) cols),
        evs @ [Opened p] @ map Saved figs @ [Closed p])"
    unfolding create_96_barplot_def Let_def assms(1) [symmetric] assms(2) [symmetric]
    using assms(3) loop by (simp add: with_PdfPages_def split: option.splits)
  with titles show ?thesis by blast
qed

lemma larger_context_barplot_not_opened:
  assumes "open_file backend
      (folder_path @ [''signatures.'' @ str_nat (length (MutationType df)) @ ''.pdf'']) = Some e"
  shows "larger_context_barplot h backend df folder_path evs =
     (Inl e, df\<lparr>context_col := Some (map extract_context (MutationType df))\<rparr>, evs)"
  unfolding larger_context_barplot_unfold shape0_def using assms
  by (simp add: with_PdfPages_def)

lemma create_96_barplot_not_opened:
  assumes "open_file backend (figure_folder @ [''signatures.96.pdf'']) = Some e"
  shows "create_96_barplot h backend df figure_folder evs = (Inl e, evs)"
  unfolding create_96_barplot_def Let_def using assms
  by (simp add: with_PdfPages_def)

subsection \<open>Claims about the document of a report\<close>

text \<open>The sorted columns of the examples, and the table that the larger report works on.\<close>

lemma example_sorted_columns:
  "sort_key (custom_sort_column_names example_helpers) (map fst (samples example_table)) =
     [''SBS2'', ''SBS10'']"
  by (simp add: example_helpers_def example_table_def custom_sort_column_names_spec_def
      is_digit_def digits_value_def)

lemma example_extracted:
  "example_table\<lparr>context_col := Some (map extract_context (MutationType example_table))\<rparr> =
     example_context_table"
  by (simp add: example_table_def example_context_table_def is_word_def)

lemma standard_sorted_columns:
  "sort_key (custom_sort_column_names example_helpers) (tl (columns standard_table)) =
     [''SBS2'', ''SBS10'', ''SBS30'']"
  by (simp add: example_helpers_def standard_table_def columns_def
      custom_sort_column_names_spec_def is_digit_def digits_value_def)

lemma standard_figures:
  "\<exists>fig fig' fig''.
     standard_figure example_helpers standard_table ''SBS2'' = Inr fig \<and>
     standard_figure example_helpers standard_table ''SBS10'' = Inr fig' \<and>
     standard_figure example_helpers standard_table ''SBS30'' = Inr fig''"
  by (simp add: standard_figure_def get_cells_def standard_table_def example_helpers_def
      unique_def Let_def format_xlabel_def str_get_def)

text \<open>
  The outcome of each column of the examples on the backend that cannot draw the page
  of SBS10.
\<close>

lemma example_columns_failing:
  "fst (larger_columns_loop example_helpers failing_backend example_context_table [''SBS2''] []) =
     Inr ()"
  "fst (larger_columns_loop example_helpers failing_backend example_context_table [''SBS10''] []) =
     Inl (Raised ''disk full'')"
proof -
  from example_figures obtain rows fig rows' fig' where
    p: "parse_lager_context_df example_helpers example_context_table ''SBS2'' = Inr rows"
    and f: "context_figure example_helpers rows = Inr fig"
    and p': "parse_lager_context_df example_helpers example_context_table ''SBS10'' = Inr rows'"
    and f': "context_figure example_helpers rows' = Inr fig'"
    by blast
  from context_figure_title [OF p f] context_figure_title [OF p' f']
  have t: "page_title fig = ''SBS2''" "page_title fig' = ''SBS10''" .
  show "fst (larger_columns_loop example_helpers failing_backend example_context_table
      [''SBS2''] []) = Inr ()"
    using p f t by (simp add: create_increased_context_barplot_def savefig_def
        failing_backend_def figure_title_def)
  show "fst (larger_columns_loop example_helpers failing_backend example_context_table
      [''SBS10''] []) = Inl (Raised ''disk full'')"
    using p' f' t by (simp add: create_increased_context_barplot_def savefig_def
        failing_backend_def figure_title_def)
qed

lemma standard_columns_failing:
  "fst (standard_columns_loop example_helpers failing_backend standard_table [''SBS2''] []) =
     Inr ()"
  "fst (standard_columns_loop example_helpers failing_backend standard_table [''SBS10''] []) =
     Inl (Raised ''disk full'')"
proof -
  from standard_figures obtain fig fig' where
    f: "standard_figure example_helpers standard_table ''SBS2'' = Inr fig"
    and f': "standard_figure example_helpers standard_table ''SBS10'' = Inr fig'"
    by blast
  from standard_figure_title [OF f] standard_figure_title [OF f']
  have t: "page_title fig = ''SBS2''" "page_title fig' = ''SBS10''" .
  show "fst (standard_columns_loop example_helpers failing_backend standard_table
      [''SBS2''] []) = Inr ()"
    using f t by (simp add: parse_96_df_def savefig_def failing_backend_def figure_title_def)
  show "fst (standard_columns_loop example_helpers failing_backend standard_table
      [''SBS10''] []) = Inl (Raised ''disk full'')"
    using f' t by (simp add: parse_96_df_def savefig_def failing_backend_def figure_title_def)
qed

text \<open>
  C8 (as amended). A report call whose document can be opened adds to the log exactly
  one opening of the document, then only the pages it saved, and last exactly one
  closing of the same document, whether every column was rendered or one of them
  raised an error. What the call returns is the error of the first column that raised
  one, or nothing when no column raised; only an error of closing the document itself
  takes its place.
\<close>

theorem document_opened_and_closed_once:
  assumes "df' = df\<lparr>context_col := Some (map extract_context (MutationType df))\<rparr>"
    and "p = folder_path @ [''signatures.'' @ str_nat (length (MutationType df)) @ ''.pdf'']"
    and "p96 = figure_folder @ [''signatures.96.pdf'']"
    and "open_file backend p = None"
    and "open_file backend p96 = None"
  shows "\<exists>figs figs96.
     larger_context_barplot h backend df folder_path evs =
       (case close_file backend p of
          Some e \<Rightarrow> Inl e
        | None \<Rightarrow>
            first_error (map (\<lambda>c. fst (larger_columns_loop h backend df' [c] []))
              (sort_key (custom_sort_column_names h) (map fst (samples df)))),
        df', evs @ [Opened p] @ map Saved figs @ [Closed p]) \<and>
     create_96_barplot h backend df96 figure_folder evs96 =
       (case close_file backend p96 of
          Some e \<Rightarrow> Inl e
        | None \<Rightarrow>
            first_error (map (\<lambda>c. fst (standard_columns_loop h backend df96 [c] []))
              (sort_key (custom_sort_column_names h) (tl (columns df96)))),
        evs96 @ [Opened p96] @ map Saved figs96 @ [Closed p96])"
proof -
  from larger_context_barplot_outcome [OF assms(1) refl assms(2) assms(4), of h evs]
  obtain figs where "larger_context_barplot h backend df folder_path evs =
       (case close_file backend p of
          Some e \<Rightarrow> Inl e
        | None \<Rightarrow>
            first_error (map (\<lambda>c. fst (larger_columns_loop h backend df' [c] []))
              (sort_key (custom_sort_column_names h) (map fst (samples df)))),
        df', evs @ [Opened p] @ map Saved figs @ [Closed p])"
    by blast
  moreover from create_96_barplot_outcome [OF refl assms(3) assms(5), of h df96 evs96]
  obtain figs96 where "create_96_barplot h backend df96 figure_folder evs96 =
       (case close_file backend p96 of
          Some e \<Rightarrow> Inl e
        | None \<Rightarrow>
            first_error (map (\<lambda>c. fst (standard_columns_loop h backend df96 [c] []))
              (sort_key (custom_sort_column_names h) (tl (columns df96)))),
        evs96 @ [Opened p96] @ map Saved figs96 @ [Closed p96])"
    by blast
  ultimately show ?thesis by blast
qed

text \<open>
  A failure injected at the column SBS10, the last of two columns of the larger
  report and the second of three columns of the standard report: the error is the
  result of the call, and the document is opened once and closed once.
\<close>

theorem document_opened_and_closed_once_witness:
  "\<exists>figs figs96.
     larger_context_barplot example_helpers failing_backend example_table [''figures''] [] =
       (Inl (Raised ''disk full''), example_context_table,
        [Opened [''figures'', ''signatures.4.pdf'']] @ map Saved figs @
        [Closed [''figures'', ''signatures.4.pdf'']]) \<and>
     create_96_barplot example_helpers failing_backend standard_table [''figures''] [] =
       (Inl (Raised ''disk full''),
        [Opened [''figures'', ''signatures.96.pdf'']] @ map Saved figs96 @
        [Closed [''figures'', ''signatures.96.pdf'']])"
proof -
  have n: "[''figures'', ''signatures.4.pdf''] =
      [''figures''] @ [''signatures.'' @ str_nat (length (MutationType example_table)) @ ''.pdf'']"
    by (simp add: example_table_def str_nat.simps)
  have n96: "[''figures'', ''signatures.96.pdf''] = [''figures''] @ [''signatures.96.pdf'']"
    by simp
  have o: "open_file failing_backend [''figures'', ''signatures.4.pdf''] = None"
    "open_file failing_backend [''figures'', ''signatures.96.pdf''] = None"
    "close_file failing_backend [''figures'', ''signatures.4.pdf''] = None"
    "close_file failing_backend [''figures'', ''signatures.96.pdf''] = None"
    by (simp_all add: failing_backend_def)
  have r: "first_error (map (\<lambda>c. fst (larger_columns_loop example_helpers failing_backend
      example_context_table [c] [])) [''SBS2'', ''SBS10'']) = Inl (Raised ''disk full'')"
    by (simp only: list.map example_columns_failing first_error.simps)
  have r96: "first_error (map (\<lambda>c. fst (standard_columns_loop example_helpers failing_backend
      standard_table [c] [])) [''SBS2'', ''SBS10'', ''SBS30'']) = Inl (Raised ''disk full'')"
    by (simp only: list.map standard_columns_failing first_error.simps)
  from document_opened_and_closed_once [OF example_extracted [symmetric] n n96 o(1) o(2),
      of example_helpers "[]" standard_table "[]"]
  show ?thesis
    unfolding example_sorted_columns standard_sorted_columns r r96 o option.case append_Nil .
qed

text \<open>
  As the claim is worded it fails for a document that cannot be opened: the error of
  opening comes back, and nothing is opened or closed.
\<close>

theorem document_not_opened:
  "larger_context_barplot example_helpers missing_folder_backend example_table [''missing''] [] =
     (Inl (Raised ''No such file or directory''), example_context_table, []) \<and>
   create_96_barplot example_helpers missing_folder_backend standard_table [''missing''] [] =
     (Inl (Raised ''No such file or directory''), [])"
proof -
  have "larger_context_barplot example_helpers missing_folder_backend example_table
      [''missing''] [] = (Inl (Raised ''No such file or directory''),
        example_table\<lparr>context_col := Some (map extract_context (MutationType example_table))\<rparr>, [])"
    by (rule larger_context_barplot_not_opened) (simp add: missing_folder_backend_def)
  moreover have "create_96_barplot example_helpers missing_folder_backend standard_table
      [''missing''] [] = (Inl (Raised ''No such file or directory''), [])"
    by (rule create_96_barplot_not_opened) (simp add: missing_folder_backend_def)
  ultimately show ?thesis by (simp only: example_extracted)
qed

text \<open>
  \<open>str_nat\<close> writes the decimal numeral of a number: digits only, at least one, no
  leading zero but for the number 0, and reading the digits gives the number back.
\<close>

lemma digits_value_snoc:
  "digits_value (ds @ [c]) = 10 * digits_value ds + (of_char c - 48)"
  by (simp add: digits_value_def)

lemma digit_of_nat:
  assumes "k < 10"
  shows "of_char (''0123456789'' ! k) - 48 = k"
    and "is_digit (''0123456789'' ! k)"
    and "(''0123456789'' ! k = CHR ''0'') = (k = 0)"
proof -
  from assms have k: "k \<in> {0, 1, 2, 3, 4, 5, 6, 7, 8, 9}" by auto
  from k show "of_char (''0123456789'' ! k) - 48 = k" by auto
  from k show "is_digit (''0123456789'' ! k)" by (auto simp: is_digit_def)
  from k show "(''0123456789'' ! k = CHR ''0'') = (k = 0)" by auto
qed

lemma str_nat_not_empty: "str_nat n \<noteq> []"
  by (subst str_nat.simps) simp

lemma digits_value_str_nat: "digits_value (str_nat n) = n"
proof (induction n rule: str_nat.induct)
  case (1 n)
  show ?case
  proof (cases "n < 10")
    case True
    then have "str_nat n = [''0123456789'' ! n]" by (simp add: str_nat.simps)
    with True show ?thesis
      using digits_value_snoc [of "[]" "''0123456789'' ! n"]
      by (simp add: digit_of_nat digits_value_def)
  next
    case False
    then have "str_nat n = str_nat (n div 10) @ [''0123456789'' ! (n mod 10)]"
      by (subst str_nat.simps) simp
    with False "1.IH" show ?thesis
      by (simp add: digits_value_snoc digit_of_nat)
  qed
qed

lemma str_nat_digits: "list_all is_digit (str_nat n)"
proof (induction n rule: str_nat.induct)
  case (1 n)
  show ?case
  proof (cases "n < 10")
    case True
    then have "str_nat n = [''0123456789'' ! n]" by (simp add: str_nat.simps)
    with True show ?thesis by (simp add: digit_of_nat)
  next
    case False
    then have "str_nat n = str_nat (n div 10) @ [''0123456789'' ! (n mod 10)]"
      by (subst str_nat.simps) simp
    with False "1.IH" show ?thesis by (simp add: digit_of_nat)
  qed
qed

lemma str_nat_leading_zero: "(hd (str_nat n) = CHR ''0'') = (n = 0)"
proof (induction n rule: str_nat.induct)
  case (1 n)
  show ?case
  proof (cases "n < 10")
    case True
    then have "str_nat n = [''0123456789'' ! n]" by (simp add: str_nat.simps)
    with True show ?thesis by (simp add: digit_of_nat)
  next
    case False
    then have "str_nat n = str_nat (n div 10) @ [''0123456789'' ! (n mod 10)]"
      by (subst str_nat.simps) simp
    moreover from False have "n div 10 \<noteq> 0" by simp
    ultimately show ?thesis
      using False "1.IH" by (simp add: str_nat_not_empty)
  qed
qed

lemma str_nat_examples: "str_nat 0 = ''0''" "str_nat 4 = ''4''" "str_nat 96 = ''96''"
  by (simp_all add: str_nat.simps)

text \<open>
  C9 (as amended). When the document can be opened, the one document of
  larger_context_barplot is the file signatures.N.pdf in the given folder, \<open>N\<close> the
  number of rows of the table written as a decimal numeral (digits only, no leading
  zero but for 0 itself, which is written 0, and of value \<open>N\<close>); the one document of
  create_96_barplot is the file signatures.96.pdf in the given folder.
\<close>

theorem report_file_names:
  assumes "N = length (MutationType df)"
    and "open_file backend (folder_path @ [''signatures.'' @ str_nat N @ ''.pdf'']) = None"
    and "open_file backend (figure_folder @ [''signatures.96.pdf'']) = None"
  shows "opened_paths (snd (snd (larger_context_barplot h backend df folder_path []))) =
       [folder_path @ [''signatures.'' @ str_nat N @ ''.pdf'']] \<and>
     opened_paths (snd (create_96_barplot h backend df96 figure_folder [])) =
       [figure_folder @ [''signatures.96.pdf'']] \<and>
     str_nat N \<noteq> [] \<and> list_all is_digit (str_nat N) \<and> digits_value (str_nat N) = N \<and>
     (hd (str_nat N) = CHR ''0'') = (N = 0) \<and> str_nat 0 = ''0''"
proof -
  from larger_context_barplot_outcome [OF refl refl refl, of backend folder_path df h "[]"]
    assms(1, 2)
  obtain figs where "snd (snd (larger_context_barplot h backend df folder_path [])) =
     [] @ [Opened (folder_path @ [''signatures.'' @ str_nat N @ ''.pdf''])] @
     map Saved figs @ [Closed (folder_path @ [''signatures.'' @ str_nat N @ ''.pdf''])]"
    by auto
  then have a: "opened_paths (snd (snd (larger_context_barplot h backend df folder_path []))) =
     [folder_path @ [''signatures.'' @ str_nat N @ ''.pdf'']]"
    by (simp add: opened_paths_simps opened_paths_Saved)
  from create_96_barplot_outcome [OF refl refl assms(3), of h df96 "[]"]
  obtain figs' where "snd (create_96_barplot h backend df96 figure_folder []) =
     [] @ [Opened (figure_folder @ [''signatures.96.pdf''])] @ map Saved figs' @
     [Closed (figure_folder @ [''signatures.96.pdf''])]"
    by auto
  then have b: "opened_paths (snd (create_96_barplot h backend df96 figure_folder [])) =
     [figure_folder @ [''signatures.96.pdf'']]"
    by (simp add: opened_paths_simps opened_paths_Saved)
  from a b show ?thesis
    by (simp add: str_nat_not_empty str_nat_digits digits_value_str_nat str_nat_leading_zero
        str_nat_examples)
qed

text \<open>
  The table of four rows gives the file signatures.4.pdf, the standard table the file
  signatures.96.pdf.
\<close>

theorem report_file_names_witness:
  "opened_paths (snd (snd (larger_context_barplot example_helpers working_backend
      example_table [''figures''] []))) = [[''figures'', ''signatures.4.pdf'']] \<and>
   opened_paths (snd (create_96_barplot example_helpers working_backend
      standard_table [''figures''] [])) = [[''figures'', ''signatures.96.pdf'']]"
proof -
  have n: "4 = length (MutationType example_table)"
    by (simp add: example_table_def)
  have o: "open_file working_backend ([''figures''] @ [''signatures.'' @ str_nat 4 @ ''.pdf'']) = None"
    "open_file working_backend ([''figures''] @ [''signatures.96.pdf'']) = None"
    by (simp_all add: working_backend_def)
  from report_file_names [where h = example_helpers and ?df96.0 = standard_table, OF n o]
  show ?thesis by (simp add: str_nat_examples)
qed

text \<open>
  As the claim is worded it fails for a folder in which no document can be opened:
  the call raises the error of opening, and no document is written.
\<close>

theorem report_not_written:
  "fst (larger_context_barplot example_helpers missing_folder_backend example_table
      [''missing''] []) = Inl (Raised ''No such file or directory'') \<and>
   opened_paths (snd (snd (larger_context_barplot example_helpers missing_folder_backend
      example_table [''missing''] []))) = [] \<and>
   fst (create_96_barplot example_helpers missing_folder_backend standard_table
      [''missing''] []) = Inl (Raised ''No such file or directory'') \<and>
   opened_paths (snd (create_96_barplot example_helpers missing_folder_backend
      standard_table [''missing''] [])) = []"
proof -
  have "larger_context_barplot example_helpers missing_folder_backend example_table
      [''missing''] [] = (Inl (Raised ''No such file or directory''),
        example_table\<lparr>context_col := Some (map extract_context (MutationType example_table))\<rparr>, [])"
    by (rule larger_context_barplot_not_opened) (simp add: missing_folder_backend_def)
  moreover have "create_96_barplot example_helpers missing_folder_backend standard_table
      [''missing''] [] = (Inl (Raised ''No such file or directory''), [])"
    by (rule create_96_barplot_not_opened) (simp add: missing_folder_backend_def)
  ultimately show ?thesis by (simp add: opened_paths_simps)
qed

subsection \<open>Claims about the caller's table\<close>

text \<open>
  C10. Whatever it returns, larger_context_barplot leaves the caller's table with the
  column \<open>context\<close> holding what the pattern extracts from each mutation-type string,
  and with its other columns as they were; a table that had no such column has
  changed.
\<close>

theorem larger_context_barplot_adds_context:
  "fst (snd (larger_context_barplot h backend df folder_path evs)) =
     df\<lparr>context_col := Some (map extract_context (MutationType df))\<rparr> \<and>
   (context_col df = None \<longrightarrow> fst (snd (larger_context_barplot h backend df folder_path evs)) \<noteq> df)"
proof -
  have a: "fst (snd (larger_context_barplot h backend df folder_path evs)) =
     df\<lparr>context_col := Some (map extract_context (MutationType df))\<rparr>"
    by (simp only: larger_context_barplot_unfold fst_conv snd_conv)
  have "df\<lparr>context_col := Some (map extract_context (MutationType df))\<rparr> \<noteq> df"
    if "context_col df = None"
  proof
    assume "df\<lparr>context_col := Some (map extract_context (MutationType df))\<rparr> = df"
    then have "context_col (df\<lparr>context_col := Some (map extract_context (MutationType df))\<rparr>) =
        context_col df" by simp
    with that show False by simp
  qed
  with a show ?thesis by simp
qed

theorem larger_context_barplot_adds_context_witness:
  "fst (snd (larger_context_barplot example_helpers working_backend example_table [''figures''] [])) =
     example_context_table \<and>
   fst (snd (larger_context_barplot example_helpers working_backend example_table [''figures''] [])) \<noteq>
     example_table"
proof -
  have h: "context_col example_table = None"
    by (simp add: example_table_def)
  from larger_context_barplot_adds_context
    [of example_helpers working_backend example_table "[''figures'']" "[]"] h
  show ?thesis unfolding example_extracted by blast
qed

subsection \<open>Claims about the order of the columns\<close>

lemma custom_sort_column_names_spec_suffix:
  assumes "\<forall>c \<in> set prefix. \<not> is_digit c" and "d \<noteq> []" and "\<forall>c \<in> set d. is_digit c"
  shows "custom_sort_column_names_spec (prefix @ d) = (prefix, digits_value d)"
proof -
  obtain c cs where d: "d = c # cs" using assms(2) by (cases d) auto
  have c: "is_digit c" using assms(3) d by simp
  have a: "takeWhile (\<lambda>c. \<not> is_digit c) (prefix @ d) = prefix"
    using assms(1) c d by (simp add: takeWhile_append2)
  have b: "dropWhile (\<lambda>c. \<not> is_digit c) (prefix @ d) = d"
    using assms(1) c d by (simp add: dropWhile_append2)
  have e: "takeWhile is_digit d = d"
    using assms(3) by simp
  show ?thesis
    unfolding custom_sort_column_names_spec_def by (simp only: a b e)
qed

lemma sorted_snd_of_pairs:
  "sorted (map (\<lambda>x. (p, g x)) xs) \<Longrightarrow> sorted (map g xs)"
  by (induction xs) auto

lemma sort_key_spec_numeric:
  assumes "\<forall>c \<in> set prefix. \<not> is_digit c"
    and "\<forall>d \<in> set suffixes. d \<noteq> [] \<and> (\<forall>c \<in> set d. is_digit c)"
    and "sorted_columns =
      sort_key custom_sort_column_names_spec (map (\<lambda>d. prefix @ d) suffixes)"
  shows "sorted (map (\<lambda>column_name. digits_value (drop (length prefix) column_name)) sorted_columns)"
proof -
  let ?names = "map (\<lambda>d. prefix @ d) suffixes"
  let ?g = "\<lambda>column_name. digits_value (drop (length prefix) column_name)"
  have key: "custom_sort_column_names_spec nm = (prefix, ?g nm)" if "nm \<in> set ?names" for nm
    using that assms(1,2) by (auto simp: custom_sort_column_names_spec_suffix)
  have "sorted (map custom_sort_column_names_spec sorted_columns)"
    unfolding assms(3) by (rule sorted_sort_key)
  moreover have "map custom_sort_column_names_spec sorted_columns =
      map (\<lambda>nm. (prefix, ?g nm)) sorted_columns"
    unfolding assms(3) by (rule map_cong [OF refl]) (simp add: key del: set_map)
  ultimately show "sorted (map ?g sorted_columns)"
    by (simp add: sorted_snd_of_pairs)
qed

text \<open>
  A report that returns without an error has saved one page for each column, in the
  order in which it sorted the columns.
\<close>

lemma first_error_takeWhile:
  "first_error (map f cols) = Inr () \<Longrightarrow> takeWhile (\<lambda>c. f c = Inr ()) cols = cols"
proof (induction cols)
  case Nil
  then show ?case by simp
next
  case (Cons c cs)
  then show ?case by (cases "f c") simp_all
qed

lemma saved_titles_report:
  "saved_titles (evs @ [Opened p] @ map Saved figs @ [Closed p]) =
     saved_titles evs @ map figure_title figs"
  by (simp add: saved_titles_def saved_figures_simps saved_figures_Saved)

lemma larger_context_barplot_success:
  assumes "larger_context_barplot h backend df folder_path evs = (Inr (), df', evs')"
  shows "saved_titles evs' =
     saved_titles evs @ sort_key (custom_sort_column_names h) (map fst (samples df))"
proof -
  let ?p = "folder_path @ [''signatures.'' @ str_nat (length (MutationType df)) @ ''.pdf'']"
  let ?df = "df\<lparr>context_col := Some (map extract_context (MutationType df))\<rparr>"
  let ?cols = "sort_key (custom_sort_column_names h) (map fst (samples df))"
  let ?one = "\<lambda>c. fst (larger_columns_loop h backend ?df [c] [])"
  have opened: "open_file backend ?p = None"
  proof (cases "open_file backend ?p")
    case (Some e)
    from larger_context_barplot_not_opened [OF Some, of h evs] assms show ?thesis by simp
  qed simp
  from larger_context_barplot_outcome [OF refl refl refl opened, of h evs]
  obtain figs where
    run: "larger_context_barplot h backend df folder_path evs =
       (case close_file backend ?p of Some e \<Rightarrow> Inl e | None \<Rightarrow> first_error (map ?one ?cols),
        ?df, evs @ [Opened ?p] @ map Saved figs @ [Closed ?p])"
    and titles: "map figure_title figs = takeWhile (\<lambda>c. ?one c = Inr ()) ?cols"
    by blast
  from run assms have "first_error (map ?one ?cols) = Inr ()"
    and evs': "evs' = evs @ [Opened ?p] @ map Saved figs @ [Closed ?p]"
    by (simp_all split: option.splits)
  then have "takeWhile (\<lambda>c. ?one c = Inr ()) ?cols = ?cols"
    by (simp only: first_error_takeWhile)
  with titles show ?thesis
    unfolding evs' saved_titles_report by simp
qed

lemma create_96_barplot_success:
  assumes "create_96_barplot h backend df figure_folder evs = (Inr (), evs')"
  shows "saved_titles evs' =
     saved_titles evs @ sort_key (custom_sort_column_names h) (tl (columns df))"
proof -
  let ?p = "figure_folder @ [''signatures.96.pdf'']"
  let ?cols = "sort_key (custom_sort_column_names h) (tl (columns df))"
  let ?one = "\<lambda>c. fst (standard_columns_loop h backend df [c] [])"
  have opened: "open_file backend ?p = None"
  proof (cases "open_file backend ?p")
    case (Some e)
    from create_96_barplot_not_opened [OF Some, of h df evs] assms show ?thesis by simp
  qed simp
  from create_96_barplot_outcome [OF refl refl opened, of h df evs]
  obtain figs where
    run: "create_96_barplot h backend df figure_folder evs =
       (case close_file backend ?p of Some e \<Rightarrow> Inl e | None \<Rightarrow> first_error (map ?one ?cols),
        evs @ [Opened ?p] @ map Saved figs @ [Closed ?p])"
    and titles: "map figure_title figs = takeWhile (\<lambda>c. ?one c = Inr ()) ?cols"
    by blast
  from run assms have "first_error (map ?one ?cols) = Inr ()"
    and evs': "evs' = evs @ [Opened ?p] @ map Saved figs @ [Closed ?p]"
    by (simp_all split: option.splits)
  then have "takeWhile (\<lambda>c. ?one c = Inr ()) ?cols = ?cols"
    by (simp only: first_error_takeWhile)
  with titles show ?thesis
    unfolding evs' saved_titles_report by simp
qed

text \<open>
  C4. With the sort key that the specification describes, and sample columns whose
  names share a prefix without digits and end in a numeral, each of the two reports,
  when it returns without an error, has saved the pages of the columns in the order
  of the numbers that the suffixes spell: the titles of the saved pages are the
  column names, each once, and the numbers of their suffixes ascend. The columns
  SBS1, SBS2, SBS10, SBS3 are sorted as SBS1, SBS2, SBS3, SBS10.
\<close>

theorem sorted_columns_numeric:
  assumes "custom_sort_column_names h = custom_sort_column_names_spec"
    and "\<forall>c \<in> set prefix. \<not> is_digit c"
    and "\<forall>d \<in> set suffixes. d \<noteq> [] \<and> (\<forall>c \<in> set d. is_digit c)"
    and "map fst (samples df) = map (\<lambda>d. prefix @ d) suffixes"
    and "tl (columns df96) = map (\<lambda>d. prefix @ d) suffixes"
    and "larger_context_barplot h backend df folder_path [] = (Inr (), df', evs)"
    and "create_96_barplot h backend df96 figure_folder [] = (Inr (), evs96)"
  shows "saved_titles evs = saved_titles evs96 \<and>
     mset (saved_titles evs) = mset (map (\<lambda>d. prefix @ d) suffixes) \<and>
     sorted (map (\<lambda>column_name. digits_value (drop (length prefix) column_name))
       (saved_titles evs)) \<and>
     sort_key (custom_sort_column_names h) [''SBS1'', ''SBS2'', ''SBS10'', ''SBS3''] =
       [''SBS1'', ''SBS2'', ''SBS3'', ''SBS10'']"
proof -
  let ?names = "map (\<lambda>d. prefix @ d) suffixes"
  have a: "saved_titles evs = sort_key custom_sort_column_names_spec ?names"
    using larger_context_barplot_success [OF assms(6)]
    by (simp add: assms(1) assms(4) saved_titles_def saved_figures_simps)
  have b: "saved_titles evs96 = sort_key custom_sort_column_names_spec ?names"
    using create_96_barplot_success [OF assms(7)]
    by (simp add: assms(1) assms(5) saved_titles_def saved_figures_simps)
  have "mset (saved_titles evs) = mset ?names"
    unfolding a by simp
  moreover have "sorted (map (\<lambda>column_name. digits_value (drop (length prefix) column_name))
       (saved_titles evs))"
    by (rule sort_key_spec_numeric [OF assms(2) assms(3) a])
  moreover have "sort_key (custom_sort_column_names h) [''SBS1'', ''SBS2'', ''SBS10'', ''SBS3''] =
       [''SBS1'', ''SBS2'', ''SBS3'', ''SBS10'']"
    unfolding assms(1)
    by (simp add: custom_sort_column_names_spec_def is_digit_def digits_value_def)
  ultimately show ?thesis using a b by simp
qed

text \<open>
  The table with the columns SBS1, SBS2, SBS10, SBS3: each report returns without an
  error and has saved the pages in the order SBS1, SBS2, SBS3, SBS10, which is not the
  lexicographic order of the names.
\<close>

lemma sbs_columns_succeed:
  assumes "c \<in> set [''SBS1'', ''SBS2'', ''SBS10'', ''SBS3'']"
  shows "fst (larger_columns_loop example_helpers working_backend
      (sbs_table\<lparr>context_col := Some (map extract_context (MutationType sbs_table))\<rparr>) [c] []) =
        Inr ()"
    and "fst (standard_columns_loop example_helpers working_backend sbs_table [c] []) = Inr ()"
proof -
  have v: "map_of (samples sbs_table) c = Some [1]"
    using assms by (auto simp: sbs_table_def)
  have m: "MutationType sbs_table = [''AA[C>A]AA'']" "index sbs_table = [0]"
    by (simp_all add: sbs_table_def)
  show "fst (larger_columns_loop example_helpers working_backend
      (sbs_table\<lparr>context_col := Some (map extract_context (MutationType sbs_table))\<rparr>) [c] []) =
        Inr ()"
    by (simp add: v m parse_lager_context_df_def example_helpers_def
        col_df_of_def len_MutationType_0_def MutationType_0_def class_rows_def amino_def
        emit_row_def col_sum_def str_get_def unique_def context_figure_def Let_def
        bar_positions_def group_values_def np_iadd_def format_xlabel_def upt_rec is_word_def
        create_increased_context_barplot_def savefig_def working_backend_def)
  show "fst (standard_columns_loop example_helpers working_backend sbs_table [c] []) = Inr ()"
    by (simp add: v m parse_96_df_def standard_figure_def get_cells_def example_helpers_def
        unique_def Let_def format_xlabel_def str_get_def savefig_def working_backend_def)
qed

theorem sorted_columns_numeric_witness:
  "\<exists>df' evs evs96.
     larger_context_barplot example_helpers working_backend sbs_table [''figures''] [] =
       (Inr (), df', evs) \<and>
     create_96_barplot example_helpers working_backend sbs_table [''figures''] [] =
       (Inr (), evs96) \<and>
     saved_titles evs = [''SBS1'', ''SBS2'', ''SBS3'', ''SBS10''] \<and>
     saved_titles evs96 = [''SBS1'', ''SBS2'', ''SBS3'', ''SBS10''] \<and>
     map (\<lambda>column_name. digits_value (drop 3 column_name)) (saved_titles evs) = [1, 2, 3, 10] \<and>
     saved_titles evs \<noteq> sort [''SBS1'', ''SBS2'', ''SBS10'', ''SBS3'']"
proof -
  have k: "custom_sort_column_names example_helpers = custom_sort_column_names_spec"
    by (simp add: example_helpers_def)
  have h1: "\<forall>c \<in> set ''SBS''. \<not> is_digit c"
    by (simp add: is_digit_def)
  have h2: "\<forall>d \<in> set [''1'', ''2'', ''10'', ''3'']. d \<noteq> [] \<and> (\<forall>c \<in> set d. is_digit c)"
    by (simp add: is_digit_def)
  have n: "map fst (samples sbs_table) = map (\<lambda>d. ''SBS'' @ d) [''1'', ''2'', ''10'', ''3'']"
    "tl (columns sbs_table) = map (\<lambda>d. ''SBS'' @ d) [''1'', ''2'', ''10'', ''3'']"
    by (simp_all add: sbs_table_def columns_def)
  have s: "sort_key (custom_sort_column_names example_helpers)
      (map (\<lambda>d. ''SBS'' @ d) [''1'', ''2'', ''10'', ''3'']) = [''SBS1'', ''SBS2'', ''SBS3'', ''SBS10'']"
    by (simp add: k custom_sort_column_names_spec_def is_digit_def digits_value_def)
  have o: "open_file working_backend p = None" "close_file working_backend p = None" for p
    by (simp_all add: working_backend_def)
  have r: "first_error (map (\<lambda>c. fst (larger_columns_loop example_helpers working_backend
      (sbs_table\<lparr>context_col := Some (map extract_context (MutationType sbs_table))\<rparr>) [c] []))
      [''SBS1'', ''SBS2'', ''SBS3'', ''SBS10'']) = Inr ()"
    by (simp add: sbs_columns_succeed del: larger_columns_loop.simps)
  have r96: "first_error (map (\<lambda>c. fst (standard_columns_loop example_helpers working_backend
      sbs_table [c] [])) [''SBS1'', ''SBS2'', ''SBS3'', ''SBS10'']) = Inr ()"
    by (simp add: sbs_columns_succeed del: standard_columns_loop.simps)
  from larger_context_barplot_outcome [OF refl refl refl o(1),
      of example_helpers sbs_table "[''figures'']" "[]"]
  obtain df' evs where
    a: "larger_context_barplot example_helpers working_backend sbs_table [''figures''] [] =
      (Inr (), df', evs)"
    unfolding n s o r option.case by blast
  from create_96_barplot_outcome [OF refl refl o(1),
      of example_helpers sbs_table "[''figures'']" "[]"]
  obtain evs96 where
    b: "create_96_barplot example_helpers working_backend sbs_table [''figures''] [] =
      (Inr (), evs96)"
    unfolding n s o r96 option.case by blast
  have l: "sort [''SBS1'', ''SBS2'', ''SBS10'', ''SBS3''] = [''SBS1'', ''SBS10'', ''SBS2'', ''SBS3'']"
    by code_simp
  from sorted_columns_numeric [OF k h1 h2 n a b]
    larger_context_barplot_success [OF a]
  have c: "saved_titles evs = [''SBS1'', ''SBS2'', ''SBS3'', ''SBS10''] \<and>
     saved_titles evs96 = [''SBS1'', ''SBS2'', ''SBS3'', ''SBS10''] \<and>
     map (\<lambda>column_name. digits_value (drop 3 column_name)) (saved_titles evs) = [1, 2, 3, 10] \<and>
     saved_titles evs \<noteq> sort [''SBS1'', ''SBS2'', ''SBS10'', ''SBS3'']"
    unfolding l n s by (simp add: saved_titles_def saved_figures_simps digits_value_def)
  show ?thesis
    by (rule exI [of _ df'], rule exI [of _ evs], rule exI [of _ evs96])
      (rule conjI [OF a conjI [OF b c]])
qed

subsection \<open>Claims about malformed mutation-type strings\<close>

text \<open>Removing the row at a position from the columns of a table.\<close>

lemma remove_nth_simps:
  "remove_nth i [] = []"
  "remove_nth 0 (x # xs) = xs"
  "remove_nth (Suc i) (x # xs) = x # remove_nth i xs"
  by (simp_all add: remove_nth_def)

lemma zip_remove_nth:
  "zip (remove_nth i xs) (remove_nth i ys) = remove_nth i (zip xs ys)"
proof (induction i arbitrary: xs ys)
  case 0
  show ?case by (cases xs; cases ys) (simp_all add: remove_nth_simps)
next
  case (Suc i)
  then show ?case by (cases xs; cases ys) (simp_all add: remove_nth_simps)
qed

lemma map_remove_nth: "map f (remove_nth i xs) = remove_nth i (map f xs)"
  by (simp add: remove_nth_def take_map drop_map)

lemma length_remove_nth: "i < length xs \<Longrightarrow> length (remove_nth i xs) = length xs - 1"
  by (simp add: remove_nth_def)

lemma filter_remove_nth:
  assumes "i < length xs \<Longrightarrow> \<not> P (xs ! i)"
  shows "filter P (remove_nth i xs) = filter P xs"
proof (cases "i < length xs")
  case True
  then have "xs = take i xs @ xs ! i # drop (Suc i) xs"
    by (rule id_take_nth_drop)
  then have "filter P xs = filter P (take i xs @ xs ! i # drop (Suc i) xs)"
    by simp
  also have "\<dots> = filter P (remove_nth i xs)"
    using assms True by (simp add: remove_nth_def)
  finally show ?thesis by simp
next
  case False
  then show ?thesis by (simp add: remove_nth_def)
qed

lemma map_of_drop_row:
  "map_of (samples (drop_row i df)) col = map_option (remove_nth i) (map_of (samples df) col)"
proof -
  have "map_of (map (\<lambda>(column_name, vals). (column_name, remove_nth i vals)) xs) col =
      map_option (remove_nth i) (map_of xs col)" for xs :: "(string \<times> real list) list"
    by (induction xs) auto
  then show ?thesis by (simp add: drop_row_def)
qed

lemma MutationType_0_drop_row:
  assumes "i < length (index df)" and "index df ! i \<noteq> 0"
  shows "MutationType_0 (drop_row i df) = MutationType_0 df"
proof -
  have "\<not> (\<lambda>(l, m). l = 0) (zip (index df) (MutationType df) ! i)"
    if "i < length (zip (index df) (MutationType df))"
    using that assms(2) by simp
  then have "filter (\<lambda>(l, m). l = 0) (remove_nth i (zip (index df) (MutationType df))) =
      filter (\<lambda>(l, m). l = 0) (zip (index df) (MutationType df))"
    by (rule filter_remove_nth)
  then show ?thesis
    by (simp add: MutationType_0_def drop_row_def zip_remove_nth)
qed

text \<open>
  A row without a context belongs to no class, so the long-form rows of a column are
  those of the table without that row, unless the row is the one that the label 0
  names.
\<close>

lemma class_rows_remove_nth:
  assumes "i < length ctx \<Longrightarrow> ctx ! i = None"
  shows "class_rows (zip (remove_nth i ms) (zip (remove_nth i vals) (remove_nth i ctx))) mut =
     class_rows (zip ms (zip vals ctx)) mut"
proof -
  let ?col_df = "zip ms (zip vals ctx)"
  have "\<not> (\<lambda>(m, v, c). c = Some mut) (?col_df ! i)" if "i < length ?col_df"
    using that assms by simp
  then have "filter (\<lambda>(m, v, c). c = Some mut) (remove_nth i ?col_df) =
      filter (\<lambda>(m, v, c). c = Some mut) ?col_df"
    by (rule filter_remove_nth)
  then show ?thesis
    by (simp add: class_rows_def zip_remove_nth)
qed

lemma mutation_loop_cong:
  assumes "len_MutationType_0 df = len_MutationType_0 df'"
    and "\<And>mut. class_rows col_df mut = class_rows col_df' mut"
  shows "mutation_loop h df col_df col muts res = mutation_loop h df' col_df' col muts res"
  using assms by (induction muts arbitrary: res) (simp_all split: sum.splits)

lemma parse_lager_context_df_drop_row:
  assumes "i < length (MutationType df)" and "i < length (index df)"
    and "index df ! i \<noteq> 0"
    and "context_col df = Some ctx" and "i < length ctx \<Longrightarrow> ctx ! i = None"
  shows "parse_lager_context_df h (drop_row i df) col = parse_lager_context_df h df col"
proof (cases "map_of (samples df) col")
  case None
  then show ?thesis
    by (simp add: parse_lager_context_df_def map_of_drop_row)
next
  case (Some vals)
  have c: "context_col (drop_row i df) = Some (remove_nth i ctx)"
    using assms(4) by (simp add: drop_row_def)
  have "mutation_loop h (drop_row i df)
      (col_df_of (drop_row i df) (remove_nth i vals) (remove_nth i ctx)) col (MUTATION_LIST h) [] =
    mutation_loop h df (col_df_of df vals ctx) col (MUTATION_LIST h) []"
  proof (rule mutation_loop_cong)
    show "len_MutationType_0 (drop_row i df) = len_MutationType_0 df"
      by (simp add: len_MutationType_0_def MutationType_0_drop_row [OF assms(2,3)])
    show "class_rows (col_df_of (drop_row i df) (remove_nth i vals) (remove_nth i ctx)) mut =
        class_rows (col_df_of df vals ctx) mut" for mut
      using class_rows_remove_nth [OF assms(5), of "MutationType df" vals mut]
      by (simp add: col_df_of_def drop_row_def)
  qed
  with Some c assms(4) show ?thesis
    by (simp add: parse_lager_context_df_def map_of_drop_row)
qed

lemma larger_columns_loop_cong:
  assumes "\<And>col. parse_lager_context_df h df col = parse_lager_context_df h df' col"
  shows "larger_columns_loop h backend df cols evs = larger_columns_loop h backend df' cols evs"
  using assms by (induction cols arbitrary: evs) (simp_all split: sum.splits prod.splits)

text \<open>The pages that a loop over the columns saves do not depend on the log before it.\<close>

lemma larger_columns_loop_log:
  "larger_columns_loop h backend df cols evs =
     (fst (larger_columns_loop h backend df cols []),
      evs @ snd (larger_columns_loop h backend df cols []))"
proof (induction cols arbitrary: evs)
  case Nil
  show ?case by simp
next
  case (Cons c cs)
  show ?case
  proof (cases "parse_lager_context_df h df c")
    case (Inl e)
    then show ?thesis by simp
  next
    case rows: (Inr rows)
    show ?thesis
    proof (cases "context_figure h rows")
      case (Inl e)
      with rows show ?thesis by (simp add: create_increased_context_barplot_def)
    next
      case fig: (Inr fig)
      show ?thesis
      proof (cases "draw backend (Context_figure fig)")
        case (Some e)
        with rows fig show ?thesis
          by (simp add: create_increased_context_barplot_def savefig_def)
      next
        case None
        have "larger_columns_loop h backend df (c # cs) evs =
            larger_columns_loop h backend df cs (evs @ [Saved (Context_figure fig)])" for evs
          using rows fig None by (simp add: create_increased_context_barplot_def savefig_def)
        then show ?thesis
          using Cons.IH [of "evs @ [Saved (Context_figure fig)]"]
            Cons.IH [of "[Saved (Context_figure fig)]"]
          by simp
      qed
    qed
  qed
qed

lemma with_PdfPages_saved_figures:
  assumes "open_file backend p' = open_file backend p"
    and "close_file backend p' = close_file backend p"
  shows "fst (with_PdfPages backend p' (larger_columns_loop h backend df cols) evs) =
       fst (with_PdfPages backend p (larger_columns_loop h backend df cols) evs)"
    and "saved_figures (snd (with_PdfPages backend p' (larger_columns_loop h backend df cols) evs)) =
       saved_figures (snd (with_PdfPages backend p (larger_columns_loop h backend df cols) evs))"
proof -
  have l: "larger_columns_loop h backend df cols (evs @ [Opened q]) =
     (fst (larger_columns_loop h backend df cols []),
      (evs @ [Opened q]) @ snd (larger_columns_loop h backend df cols []))" for q
    by (rule larger_columns_loop_log)
  show "fst (with_PdfPages backend p' (larger_columns_loop h backend df cols) evs) =
       fst (with_PdfPages backend p (larger_columns_loop h backend df cols) evs)"
    unfolding with_PdfPages_def l assms by (simp split: option.splits)
  show "saved_figures (snd (with_PdfPages backend p' (larger_columns_loop h backend df cols) evs)) =
       saved_figures (snd (with_PdfPages backend p (larger_columns_loop h backend df cols) evs))"
    unfolding with_PdfPages_def l assms by (simp add: saved_figures_simps split: option.splits)
qed

text \<open>
  C3 (as amended). For a row whose mutation-type string fails the pattern,
  larger_context_barplot records a missing value in the column \<open>context\<close> and raises
  nothing on its account. Unless the row is the one that the label 0 names, it is left
  out silently: the call returns the same result and saves the same pages as on the
  table without that row, provided that the two documents, which differ in the number
  of rows in their names, open and close alike.
\<close>

theorem malformed_row_left_out:
  assumes "i < length (MutationType df)" and "i < length (index df)"
    and "index df ! i \<noteq> 0"
    and "extract_context (MutationType df ! i) = None"
    and "N = length (MutationType df)"
    and "open_file backend (folder_path @ [''signatures.'' @ str_nat (N - 1) @ ''.pdf'']) =
       open_file backend (folder_path @ [''signatures.'' @ str_nat N @ ''.pdf''])"
    and "close_file backend (folder_path @ [''signatures.'' @ str_nat (N - 1) @ ''.pdf'']) =
       close_file backend (folder_path @ [''signatures.'' @ str_nat N @ ''.pdf''])"
  shows "map_option (\<lambda>ctx. ctx ! i)
       (context_col (fst (snd (larger_context_barplot h backend df folder_path evs)))) = Some None \<and>
     fst (larger_context_barplot h backend (drop_row i df) folder_path evs) =
       fst (larger_context_barplot h backend df folder_path evs) \<and>
     saved_figures (snd (snd (larger_context_barplot h backend (drop_row i df) folder_path evs))) =
       saved_figures (snd (snd (larger_context_barplot h backend df folder_path evs)))"
proof -
  let ?ctx = "map extract_context (MutationType df)"
  let ?df = "df\<lparr>context_col := Some ?ctx\<rparr>"
  have none: "?ctx ! i = None"
    using assms(1,4) by simp
  have a: "map_option (\<lambda>ctx. ctx ! i)
       (context_col (fst (snd (larger_context_barplot h backend df folder_path evs)))) = Some None"
    unfolding larger_context_barplot_unfold using none by simp
  have df': "(drop_row i df)
      \<lparr>context_col := Some (map extract_context (MutationType (drop_row i df)))\<rparr> =
      drop_row i ?df"
    by (simp add: drop_row_def map_remove_nth)
  have names: "map fst (samples (drop_row i df)) = map fst (samples df)"
    by (simp add: drop_row_def comp_def case_prod_beta)
  have sh: "shape0 (drop_row i df) = N - 1" "shape0 df = N"
    using assms(1,5) by (simp_all add: shape0_def drop_row_def length_remove_nth)
  have loop: "larger_columns_loop h backend (drop_row i ?df) cols =
      larger_columns_loop h backend ?df cols" for cols
  proof
    fix evs0
    show "larger_columns_loop h backend (drop_row i ?df) cols evs0 =
        larger_columns_loop h backend ?df cols evs0"
      by (rule larger_columns_loop_cong, rule parse_lager_context_df_drop_row [of _ _ ?ctx])
        (use assms(1,2,3) none in simp_all)
  qed
  have "fst (larger_context_barplot h backend (drop_row i df) folder_path evs) =
       fst (larger_context_barplot h backend df folder_path evs)"
    unfolding larger_context_barplot_unfold df' names sh fst_conv loop
    by (rule with_PdfPages_saved_figures(1) [OF assms(6,7)])
  moreover have
    "saved_figures (snd (snd (larger_context_barplot h backend (drop_row i df) folder_path evs))) =
       saved_figures (snd (snd (larger_context_barplot h backend df folder_path evs)))"
    unfolding larger_context_barplot_unfold df' names sh snd_conv loop
    by (rule with_PdfPages_saved_figures(2) [OF assms(6,7)])
  ultimately show ?thesis using a by simp
qed

text \<open>
  Row 3 of the example table, whose string is ACA and whose label is 3: the call
  returns and saves the same as on the table of the three other rows.
\<close>

theorem malformed_row_left_out_witness:
  "MutationType example_table ! 3 = ''ACA'' \<and>
   MutationType (drop_row 3 example_table) = [''AA[C>A]AA'', ''CA[C>A]AT'', ''AA[C>G]AA''] \<and>
   fst (larger_context_barplot example_helpers working_backend
          (drop_row 3 example_table) [''figures''] []) =
   fst (larger_context_barplot example_helpers working_backend example_table [''figures''] []) \<and>
   saved_figures (snd (snd (larger_context_barplot example_helpers working_backend
          (drop_row 3 example_table) [''figures''] []))) =
   saved_figures (snd (snd (larger_context_barplot example_helpers working_backend
          example_table [''figures''] [])))"
proof -
  have h1: "3 < length (MutationType example_table)" "3 < length (index example_table)"
    "index example_table ! 3 \<noteq> 0"
    by (simp_all add: example_table_def)
  have h2: "extract_context (MutationType example_table ! 3) = None"
    by (simp add: example_table_def is_word_def)
  have h3: "open_file working_backend p' = open_file working_backend p"
    "close_file working_backend p' = close_file working_backend p" for p p'
    by (simp_all add: working_backend_def)
  have m: "MutationType example_table ! 3 = ''ACA''"
    "MutationType (drop_row 3 example_table) = [''AA[C>A]AA'', ''CA[C>A]AT'', ''AA[C>G]AA'']"
    by (simp_all add: example_table_def drop_row_def remove_nth_def)
  from malformed_row_left_out [OF h1 h2 refl h3, of example_helpers "[''figures'']" "[]"] m
  show ?thesis by blast
qed

text \<open>
  The example table holds the string ACA, which fails the pattern; the call returns
  without an error and saves one page for each of the two columns. C3 as stated fails
  here.
\<close>

theorem malformed_row_raises_nothing:
  "MutationType example_table ! 3 = ''ACA'' \<and> extract_context ''ACA'' = None \<and>
   fst (larger_context_barplot example_helpers working_backend example_table [''figures''] []) =
     Inr () \<and>
   saved_titles (snd (snd
     (larger_context_barplot example_helpers working_backend example_table [''figures''] []))) =
     [''SBS2'', ''SBS10'']"
proof -
  from example_figures obtain rows fig rows' fig' where
    p: "parse_lager_context_df example_helpers example_context_table ''SBS2'' = Inr rows"
    and f: "context_figure example_helpers rows = Inr fig"
    and p': "parse_lager_context_df example_helpers example_context_table ''SBS10'' = Inr rows'"
    and f': "context_figure example_helpers rows' = Inr fig'"
    by blast
  from context_figure_title [OF p f] context_figure_title [OF p' f']
  have t: "page_title fig = ''SBS2''" "page_title fig' = ''SBS10''" .
  from p f p' f' have "larger_columns_loop example_helpers working_backend example_context_table
      [''SBS2'', ''SBS10''] [Opened [''figures'', ''signatures.4.pdf'']] =
    (Inr (), [Opened [''figures'', ''signatures.4.pdf''], Saved (Context_figure fig),
      Saved (Context_figure fig')])"
    by (simp add: create_increased_context_barplot_def savefig_def working_backend_def)
  moreover have "str_nat (shape0 example_table) = ''4''"
    by (simp add: shape0_def example_table_def str_nat.simps)
  moreover have "extract_context ''ACA'' = None"
    by (simp add: is_word_def)
  moreover have "MutationType example_table ! 3 = ''ACA''"
    by (simp add: example_table_def)
  moreover have "open_file working_backend q = None" "close_file working_backend q = None" for q
    by (simp_all add: working_backend_def)
  ultimately show ?thesis
    unfolding larger_context_barplot_unfold example_extracted example_sorted_columns
      with_PdfPages_def
    by (simp add: saved_titles_def saved_figures_def figure_title_def t)
qed

end
